theory Spec2Isabelle
  imports Complex_Main
begin

section \<open>LoRA adapter lifecycle of the ACE-Step handler\<close>

text \<open>
  A shallow embedding of \<^verbatim>\<open>acestep/core/generation/handler/lora_manager.py\<close>
  (class \<^verbatim>\<open>LoraManagerMixin\<close>). The mixin's methods mutate fields of the handler
  (\<^verbatim>\<open>self\<close>) and call the PEFT library, PyTorch, \<^verbatim>\<open>copy.deepcopy\<close> and
  \<^verbatim>\<open>os.path\<close>. Here

  \<^item> the handler is a record that every operation takes and returns updated;
  \<^item> every foreign call is a field of a record \<open>runtime\<close> that the operations take as
    their first argument, so that every theorem holds for every behaviour of the
    libraries and of the file system;
  \<^item> an exception is a value: a foreign call returns the state of the object it was
    called on together with the exception it raised, if any;
  \<^item> Python floats are modelled as real numbers (the code only compares and
    multiplies them); NaN and rounding are outside the model;
  \<^item> reading an attribute of the decoder or of a module, and \<^verbatim>\<open>named_modules()\<close>, do
    not raise; the values of a \<^verbatim>\<open>scaling\<close> dict are numbers, and arithmetic on a saved
    \<^verbatim>\<open>_original_scaling\<close> of another kind raises \<^verbatim>\<open>TypeError\<close>;
  \<^item> logging is a side channel and is left out.
\<close>

subsection \<open>Strings\<close>

text \<open>Python's \<^verbatim>\<open>sub in s\<close> on strings.\<close>

fun starts_with :: "string \<Rightarrow> string \<Rightarrow> bool" where
  "starts_with s [] = True"
| "starts_with [] (p # ps) = False"
| "starts_with (c # cs) (p # ps) = (c = p \<and> starts_with cs ps)"

fun contains :: "string \<Rightarrow> string \<Rightarrow> bool" where
  "contains [] sub = (sub = [])"
| "contains (c # cs) sub = (starts_with (c # cs) sub \<or> contains cs sub)"

text \<open>
  \<^verbatim>\<open>str.lower()\<close> on the letters \<open>A\<close> to \<open>Z\<close>. It is used only to test whether
  the lowered name of a class or of its module contains \<^verbatim>\<open>peft\<close> or \<^verbatim>\<open>lora\<close>, and no
  character other than \<open>A\<close> to \<open>Z\<close> is lowered by Python to a letter of these words.
\<close>

definition lower_char :: "char \<Rightarrow> char" where
  "lower_char c =
     (case map_of (zip ''ABCDEFGHIJKLMNOPQRSTUVWXYZ'' ''abcdefghijklmnopqrstuvwxyz'') c of
        Some l \<Rightarrow> l
      | None \<Rightarrow> c)"

definition lower :: "string \<Rightarrow> string" where
  "lower s = map lower_char s"

text \<open>
  \<^verbatim>\<open>str.strip()\<close> removes the leading and trailing characters \<open>c\<close> with
  \<^verbatim>\<open>c.isspace()\<close>. The operations below do not depend on this definition: they take
  \<^verbatim>\<open>str.strip\<close> from the runtime, so that their properties hold for Python's full
  Unicode whitespace and for every way of representing a Python string. The definition
  here reads a character as a code point below 256, where Python's whitespace is
  \<open>0x09\<close> to \<open>0x0D\<close>, \<open>0x1C\<close> to \<open>0x20\<close>, \<open>0x85\<close> and \<open>0xA0\<close>; the example
  runtimes use it.
\<close>

definition is_space :: "char \<Rightarrow> bool" where
  "is_space c \<longleftrightarrow>
     c \<in> set [CHR 0x09, CHR 0x0A, CHR 0x0B, CHR 0x0C, CHR 0x0D,
               CHR 0x1C, CHR 0x1D, CHR 0x1E, CHR 0x1F, CHR 0x20, CHR 0x85, CHR 0xA0]"

definition strip :: "string \<Rightarrow> string" where
  "strip s = rev (dropWhile is_space (rev (dropWhile is_space s)))"

text \<open>\<^verbatim>\<open>os.path.join(a, b)\<close> for a relative \<open>b\<close>, on POSIX.\<close>

definition path_join :: "string \<Rightarrow> string \<Rightarrow> string" where
  "path_join a b = (if a = [] \<or> last a = CHR ''/'' then a @ b else a @ ''/'' @ b)"

subsection \<open>Status strings\<close>

text \<open>
  Every operation returns a status string that starts with a marker glyph. The glyph is
  kept apart from the text, and the text is the list of the pieces of the source's
  (f-)string: literal text, an interpolated value \<^verbatim>\<open>{v}\<close>, and a float formatted
  with \<^verbatim>\<open>{x:.2f}\<close>.
\<close>

datatype glyph = Cross | Check | Warn

datatype piece = Lit string | Val string | Fix2 real

type_synonym message = "glyph \<times> piece list"

definition mentions :: "string \<Rightarrow> message \<Rightarrow> bool" where
  "mentions w msg =
     list_ex (\<lambda>p. case p of Lit t \<Rightarrow> contains t w | Val t \<Rightarrow> contains t w | Fix2 x \<Rightarrow> False)
       (snd msg)"

definition is_failure :: "message \<Rightarrow> bool" where
  "is_failure msg \<longleftrightarrow> fst msg = Cross"

definition is_success :: "message \<Rightarrow> bool" where
  "is_success msg \<longleftrightarrow> fst msg = Check"

subsection \<open>The objects of the model, the decoder and its modules\<close>

type_synonym exn = string

text \<open>
  The attribute \<^verbatim>\<open>scaling\<close> of a module: a dict from adapter names to numbers (in
  insertion order), a number, or something else.
\<close>

datatype scaling_attr = ScalingDict "(string \<times> real) list" | ScalingNum real | ScalingOther

text \<open>
  A module of the decoder: \<open>None\<close> in \<open>scaling\<close> and \<open>original_scaling\<close> says that
  \<^verbatim>\<open>hasattr(module, "scaling")\<close>, \<^verbatim>\<open>hasattr(module, "_original_scaling")\<close> is false.
\<close>

record module_obj =
  scaling :: "scaling_attr option"
  original_scaling :: "scaling_attr option"
  class_module :: string
  class_name :: string
  has_set_scale :: bool
  has_scale_layer :: bool

text \<open>
  The attribute \<^verbatim>\<open>active_adapters\<close> of the decoder (a plain value, or a callable with
  what calling it gives) and \<^verbatim>\<open>peft_config\<close>. An element or key that is not a
  \<^verbatim>\<open>str\<close> is \<open>None\<close>.
\<close>

datatype adapters_value = AdaptersStr string | AdaptersSeq "string option list" | AdaptersOther

datatype adapters_attr = AdaptersPlain adapters_value | AdaptersCallable "exn + adapters_value"

datatype config_value = ConfigDict "string option list" | ConfigOther

record decoder_obj =
  named_modules :: "(string \<times> module_obj) list"
  has_disable_adapter_layers :: bool
  active_adapters :: "adapters_attr option"
  peft_config :: "config_value option"

record model_obj =
  decoder :: decoder_obj

subsection \<open>The handler and the runtime\<close>

record handler =
  model :: "model_obj option"
  device :: string
  dtype :: string
  quantization :: "string option"
  lora_loaded :: bool
  use_lora :: bool
  lora_scale :: real
  base_decoder :: "decoder_obj option"

text \<open>
  The foreign calls: \<^verbatim>\<open>str.strip\<close>, \<^verbatim>\<open>os.path.exists\<close>, whether \<^verbatim>\<open>peft\<close> can be
  imported, \<^verbatim>\<open>copy.deepcopy\<close>, and the methods of PEFT and PyTorch. A method that
  works on its receiver in place returns the receiver's state after the call and the
  exception it raised, if any.
\<close>

record runtime =
  str_strip :: "string \<Rightarrow> string"
  path_exists :: "string \<Rightarrow> bool"
  peft_installed :: bool
  deepcopy_raises :: "decoder_obj \<Rightarrow> exn option"
  from_pretrained :: "decoder_obj \<Rightarrow> string \<Rightarrow> decoder_obj \<times> exn option"
  module_to :: "decoder_obj \<Rightarrow> string \<Rightarrow> decoder_obj \<times> exn option"
  eval_mode :: "decoder_obj \<Rightarrow> decoder_obj \<times> exn option"
  enable_adapter_layers :: "decoder_obj \<Rightarrow> decoder_obj \<times> exn option"
  disable_adapter_layers :: "decoder_obj \<Rightarrow> decoder_obj \<times> exn option"
  set_scale :: "module_obj \<Rightarrow> string \<Rightarrow> real \<Rightarrow> module_obj \<times> exn option"
  scale_layer :: "module_obj \<Rightarrow> real \<Rightarrow> module_obj \<times> exn option"

text \<open>\<^verbatim>\<open>copy.deepcopy(d)\<close>: an equal, independent object, unless it raises.\<close>

definition deepcopy :: "runtime \<Rightarrow> decoder_obj \<Rightarrow> exn + decoder_obj" where
  "deepcopy rt d = (case deepcopy_raises rt d of Some e \<Rightarrow> Inl e | None \<Rightarrow> Inr d)"

subsection \<open>\<^verbatim>\<open>get_lora_status\<close>\<close>

record lora_status =
  loaded :: bool
  active :: bool
  scale :: real

definition get_lora_status :: "handler \<Rightarrow> lora_status" where
  "get_lora_status h = \<lparr>loaded = lora_loaded h, active = use_lora h, scale = lora_scale h\<rparr>"

subsection \<open>\<^verbatim>\<open>set_lora_scale\<close>\<close>

text \<open>Python's \<^verbatim>\<open>min(a, b)\<close> and \<^verbatim>\<open>max(a, b)\<close>: the first argument unless the second beats it.\<close>

definition py_min :: "real \<Rightarrow> real \<Rightarrow> real" where
  "py_min a b = (if b < a then b else a)"

definition py_max :: "real \<Rightarrow> real \<Rightarrow> real" where
  "py_max a b = (if b > a then b else a)"

text \<open>\<^verbatim>\<open>d[k] = v\<close> on a dict kept as the list of its items.\<close>

definition dict_set :: "string \<Rightarrow> real \<Rightarrow> (string \<times> real) list \<Rightarrow> (string \<times> real) list" where
  "dict_set k v d =
     (if map_of d k = None then d @ [(k, v)]
      else map (\<lambda>(k', v'). if k' = k then (k', v) else (k', v')) d)"

text \<open>
  The loop \<^verbatim>\<open>for adapter_name in scaling: module.scaling[adapter_name] =
  module._original_scaling[adapter_name] * self.lora_scale\<close> over the keys that are left,
  \<open>cur\<close> being the live dict: a key missing from the saved dict raises \<^verbatim>\<open>KeyError\<close>, a
  saved value that is no dict raises \<^verbatim>\<open>TypeError\<close>.
\<close>

fun rescale_entries ::
  "scaling_attr option \<Rightarrow> real \<Rightarrow> string list \<Rightarrow> (string \<times> real) list \<Rightarrow> (string \<times> real) list \<times> exn option"
where
  "rescale_entries orig s [] cur = (cur, None)"
| "rescale_entries orig s (k # ks) cur =
     (case orig of
        Some (ScalingDict od) \<Rightarrow>
          (case map_of od k of
             None \<Rightarrow> (cur, Some ''KeyError'')
           | Some v \<Rightarrow> rescale_entries orig s ks (dict_set k (v * s) cur))
      | _ \<Rightarrow> (cur, Some ''TypeError''))"

text \<open>\<^verbatim>\<open>if not hasattr(module, "_original_scaling"): module._original_scaling = v\<close>\<close>

definition save_original :: "scaling_attr \<Rightarrow> module_obj \<Rightarrow> module_obj" where
  "save_original v m = (if original_scaling m = None then m\<lparr>original_scaling := Some v\<rparr> else m)"

text \<open>
  The body of the first loop for a module that passed the test
  \<^verbatim>\<open>"lora_" in name and hasattr(module, "scaling")\<close>: the module afterwards, what is
  added to \<^verbatim>\<open>modified_count\<close>, and the exception raised, if any.
\<close>

definition scale_module :: "real \<Rightarrow> module_obj \<Rightarrow> module_obj \<times> nat \<times> exn option" where
  "scale_module s m =
     (case scaling m of
        Some (ScalingDict d) \<Rightarrow>
          (let m1 = save_original (ScalingDict d) m in
           case rescale_entries (original_scaling m1) s (map fst d) d of
             (d', Some e) \<Rightarrow> (m1\<lparr>scaling := Some (ScalingDict d')\<rparr>, 0, Some e)
           | (d', None) \<Rightarrow> (m1\<lparr>scaling := Some (ScalingDict d')\<rparr>, 1, None))
      | Some (ScalingNum v) \<Rightarrow>
          (let m1 = save_original (ScalingNum v) m in
           case original_scaling m1 of
             Some (ScalingNum ov) \<Rightarrow> (m1\<lparr>scaling := Some (ScalingNum (ov * s))\<rparr>, 1, None)
           | _ \<Rightarrow> (m1, 0, Some ''TypeError''))
      | _ \<Rightarrow> (m, 0, None))"

text \<open>
  The first loop, over \<^verbatim>\<open>named_modules()\<close>: the modules afterwards, \<^verbatim>\<open>modified_count\<close>,
  and the exception that ended the loop, if any.
\<close>

fun scale_modules ::
  "real \<Rightarrow> (string \<times> module_obj) list \<Rightarrow> (string \<times> module_obj) list \<times> nat \<times> exn option"
where
  "scale_modules s [] = ([], 0, None)"
| "scale_modules s ((name, m) # rest) =
     (if contains name ''lora_'' \<and> scaling m \<noteq> None then
        (case scale_module s m of
           (m', c, Some e) \<Rightarrow> ((name, m') # rest, c, Some e)
         | (m', c, None) \<Rightarrow>
             (case scale_modules s rest of (rest', n, e) \<Rightarrow> ((name, m') # rest', c + n, e)))
      else (case scale_modules s rest of (rest', n, e) \<Rightarrow> ((name, m) # rest', n, e)))"

text \<open>
  The fallback. First \<^verbatim>\<open>active_adapters\<close>: the attribute \<^verbatim>\<open>active_adapters\<close> of the
  decoder (called when callable, which may raise), else the \<^verbatim>\<open>str\<close> keys of
  \<^verbatim>\<open>peft_config\<close>.
\<close>

definition strs :: "string option list \<Rightarrow> string list" where
  "strs xs = List.map_filter (\<lambda>x. x) xs"

definition listed_adapters :: "decoder_obj \<Rightarrow> exn + string list" where
  "listed_adapters d =
     (case active_adapters d of
        None \<Rightarrow> Inr []
      | Some attr \<Rightarrow>
          (case (case attr of AdaptersPlain v \<Rightarrow> Inr v | AdaptersCallable r \<Rightarrow> r) of
             Inl e \<Rightarrow> Inl e
           | Inr (AdaptersStr a) \<Rightarrow> Inr [a]
           | Inr (AdaptersSeq xs) \<Rightarrow> Inr (strs xs)
           | Inr AdaptersOther \<Rightarrow> Inr []))"

definition discover_adapters :: "decoder_obj \<Rightarrow> exn + string list" where
  "discover_adapters d =
     (case listed_adapters d of
        Inl e \<Rightarrow> Inl e
      | Inr adapters \<Rightarrow>
          (if adapters = [] \<and> peft_config d \<noteq> None then
             (case peft_config d of Some (ConfigDict ks) \<Rightarrow> Inr (strs ks) | _ \<Rightarrow> Inr adapters)
           else Inr adapters))"

definition is_probably_lora_layer :: "module_obj \<Rightarrow> bool" where
  "is_probably_lora_layer m \<longleftrightarrow>
     (contains (lower (class_module m)) ''peft'' \<and> contains (lower (class_module m)) ''lora'')
     \<or> contains (lower (class_name m)) ''lora''"

text \<open>
  \<^verbatim>\<open>for adapter_name in active_adapters: try: module.set_scale(adapter_name, scale);
  module_modified = True; except Exception: continue\<close>
\<close>

fun set_scale_each :: "runtime \<Rightarrow> real \<Rightarrow> string list \<Rightarrow> module_obj \<Rightarrow> module_obj \<times> bool" where
  "set_scale_each rt s [] m = (m, False)"
| "set_scale_each rt s (a # as) m =
     (case set_scale rt m a s of
        (m', None) \<Rightarrow> (fst (set_scale_each rt s as m'), True)
      | (m', Some e) \<Rightarrow> set_scale_each rt s as m')"

definition fallback_module :: "runtime \<Rightarrow> real \<Rightarrow> string list \<Rightarrow> module_obj \<Rightarrow> module_obj \<times> bool" where
  "fallback_module rt s adapters m =
     (if \<not> is_probably_lora_layer m then (m, False)
      else if has_set_scale m \<and> adapters \<noteq> [] then set_scale_each rt s adapters m
      else if has_scale_layer m then
        (case scale_layer rt m s of (m', None) \<Rightarrow> (m', True) | (m', Some e) \<Rightarrow> (m', False))
      else (m, False))"

fun fallback_modules ::
  "runtime \<Rightarrow> real \<Rightarrow> string list \<Rightarrow> (string \<times> module_obj) list \<Rightarrow> (string \<times> module_obj) list \<times> nat"
where
  "fallback_modules rt s adapters [] = ([], 0)"
| "fallback_modules rt s adapters ((name, m) # rest) =
     (case fallback_module rt s adapters m of
        (m', modified) \<Rightarrow>
          (case fallback_modules rt s adapters rest of
             (rest', n) \<Rightarrow> ((name, m') # rest', (if modified then 1 else 0) + n)))"

text \<open>The three status strings of the \<^verbatim>\<open>try\<close> block, and the two before it.\<close>

definition msg_scale_ok :: "real \<Rightarrow> message" where
  "msg_scale_ok x = (Check, [Lit ''LoRA scale: '', Fix2 x])"

definition msg_scale_none :: "real \<Rightarrow> message" where
  "msg_scale_none x = (Warn, [Lit ''Scale set to '', Fix2 x, Lit '' (no modules found)''])"

definition msg_scale_partial :: "real \<Rightarrow> message" where
  "msg_scale_partial x = (Warn, [Lit ''Scale set to '', Fix2 x, Lit '' (partial)''])"

definition msg_scale_disabled :: "real \<Rightarrow> message" where
  "msg_scale_disabled x = (Check, [Lit ''LoRA scale: '', Fix2 x, Lit '' (LoRA disabled)''])"

definition msg_no_lora :: message where
  "msg_no_lora = (Warn, [Lit ''No LoRA loaded''])"

text \<open>
  The \<^verbatim>\<open>try\<close> block of \<^verbatim>\<open>set_lora_scale\<close> on the decoder: the decoder afterwards and the
  status string.
\<close>

definition apply_scale :: "runtime \<Rightarrow> real \<Rightarrow> decoder_obj \<Rightarrow> decoder_obj \<times> message" where
  "apply_scale rt s d =
     (case scale_modules s (named_modules d) of
        (ms, n, Some e) \<Rightarrow> (d\<lparr>named_modules := ms\<rparr>, msg_scale_partial s)
      | (ms, n, None) \<Rightarrow>
          (if n = 0 then
             (case discover_adapters d of
                Inl e \<Rightarrow> (d\<lparr>named_modules := ms\<rparr>, msg_scale_partial s)
              | Inr adapters \<Rightarrow>
                  (case fallback_modules rt s adapters ms of
                     (ms', k) \<Rightarrow>
                       (d\<lparr>named_modules := ms'\<rparr>,
                        if k > 0 then msg_scale_ok s else msg_scale_none s)))
           else (d\<lparr>named_modules := ms\<rparr>, msg_scale_ok s)))"

definition set_lora_scale :: "runtime \<Rightarrow> handler \<Rightarrow> real \<Rightarrow> handler \<times> message" where
  "set_lora_scale rt h x =
     (if \<not> lora_loaded h then (h, msg_no_lora)
      else
        let h1 = h\<lparr>lora_scale := py_max 0 (py_min 1 x)\<rparr> in
        if \<not> use_lora h1 then (h1, msg_scale_disabled (lora_scale h1))
        else
          (case model h1 of
             None \<Rightarrow> (h1, msg_scale_partial (lora_scale h1))
           | Some mo \<Rightarrow>
               (case apply_scale rt (lora_scale h1) (decoder mo) of
                  (d', msg) \<Rightarrow> (h1\<lparr>model := Some (mo\<lparr>decoder := d'\<rparr>)\<rparr>, msg))))"

subsection \<open>\<^verbatim>\<open>load_lora\<close> and \<^verbatim>\<open>unload_lora\<close>\<close>

definition msg_not_initialized :: message where
  "msg_not_initialized = (Cross, [Lit ''Model not initialized. Please initialize service first.''])"

definition msg_quantized :: "string \<Rightarrow> message" where
  "msg_quantized q =
     (Cross, [Lit ''LoRA loading is not supported on quantized models. '',
              Lit ''Current quantization: '', Val q, Lit ''. '',
              Lit ''Please re-initialize the service with quantization disabled, then try loading the LoRA adapter again.''])"

definition msg_no_path :: message where
  "msg_no_path = (Cross, [Lit ''Please provide a LoRA path.''])"

definition msg_path_not_found :: "string \<Rightarrow> message" where
  "msg_path_not_found p = (Cross, [Lit ''LoRA path not found: '', Val p])"

definition msg_invalid_adapter :: "string \<Rightarrow> message" where
  "msg_invalid_adapter p =
     (Cross, [Lit ''Invalid LoRA adapter: adapter_config.json not found in '', Val p])"

definition msg_no_peft :: message where
  "msg_no_peft = (Cross, [Lit ''PEFT library not installed. Please install with: pip install peft''])"

definition msg_loaded :: "string \<Rightarrow> message" where
  "msg_loaded p = (Check, [Lit ''LoRA loaded from '', Val p])"

definition msg_load_failed :: "exn \<Rightarrow> message" where
  "msg_load_failed e = (Cross, [Lit ''Failed to load LoRA: '', Val e])"

definition msg_nothing_loaded :: message where
  "msg_nothing_loaded = (Warn, [Lit ''No LoRA adapter loaded.''])"

definition msg_no_backup :: message where
  "msg_no_backup = (Cross, [Lit ''Base decoder backup not found. Cannot restore.''])"

definition msg_unloaded :: message where
  "msg_unloaded = (Check, [Lit ''LoRA unloaded, using base model''])"

definition msg_unload_failed :: "exn \<Rightarrow> message" where
  "msg_unload_failed e = (Cross, [Lit ''Failed to unload LoRA: '', Val e])"

text \<open>
  \<^verbatim>\<open>self.model.decoder = self.model.decoder.to(self.device).to(self.dtype)\<close> and
  \<^verbatim>\<open>self.model.decoder.eval()\<close>: the decoder afterwards, and the exception of the first
  call that raised.
\<close>

definition place_decoder :: "runtime \<Rightarrow> handler \<Rightarrow> decoder_obj \<Rightarrow> decoder_obj \<times> exn option" where
  "place_decoder rt h d =
     (case module_to rt d (device h) of
        (d1, Some e) \<Rightarrow> (d1, Some e)
      | (d1, None) \<Rightarrow>
          (case module_to rt d1 (dtype h) of
             (d2, Some e) \<Rightarrow> (d2, Some e)
           | (d2, None) \<Rightarrow> eval_mode rt d2))"

text \<open>\<^verbatim>\<open>PeftModel.from_pretrained(self.model.decoder, lora_path, is_trainable=False)\<close>, then the placement.\<close>

definition load_decoder ::
  "runtime \<Rightarrow> handler \<Rightarrow> string \<Rightarrow> decoder_obj \<Rightarrow> decoder_obj \<times> exn option"
where
  "load_decoder rt h p d =
     (case from_pretrained rt d p of
        (d1, Some e) \<Rightarrow> (d1, Some e)
      | (d1, None) \<Rightarrow> place_decoder rt h d1)"

text \<open>
  The second \<^verbatim>\<open>try\<close> block of \<^verbatim>\<open>load_lora\<close>, for the model \<open>mo\<close> and the stripped
  path \<open>p\<close>: back the decoder up or restore it from the backup, load the adapter, set
  the flags.
\<close>

definition load_adapter :: "runtime \<Rightarrow> handler \<Rightarrow> model_obj \<Rightarrow> string \<Rightarrow> handler \<times> message" where
  "load_adapter rt h mo p =
     (case (case base_decoder h of
              None \<Rightarrow>
                (case deepcopy rt (decoder mo) of
                   Inl e \<Rightarrow> Inl e
                 | Inr c \<Rightarrow> Inr (h\<lparr>base_decoder := Some c\<rparr>, decoder mo))
            | Some b \<Rightarrow>
                (case deepcopy rt b of
                   Inl e \<Rightarrow> Inl e
                 | Inr c \<Rightarrow> Inr (h, c))) of
        Inl e \<Rightarrow> (h, msg_load_failed e)
      | Inr (h1, d) \<Rightarrow>
          (case load_decoder rt h p d of
             (d', Some e) \<Rightarrow> (h1\<lparr>model := Some (mo\<lparr>decoder := d'\<rparr>)\<rparr>, msg_load_failed e)
           | (d', None) \<Rightarrow>
               (h1\<lparr>model := Some (mo\<lparr>decoder := d'\<rparr>), lora_loaded := True, use_lora := True\<rparr>,
                msg_loaded p)))"

definition load_lora :: "runtime \<Rightarrow> handler \<Rightarrow> string \<Rightarrow> handler \<times> message" where
  "load_lora rt h lora_path =
     (case model h of
        None \<Rightarrow> (h, msg_not_initialized)
      | Some mo \<Rightarrow>
          (case quantization h of
             Some q \<Rightarrow> (h, msg_quantized q)
           | None \<Rightarrow>
               (if lora_path = [] \<or> str_strip rt lora_path = [] then (h, msg_no_path)
                else
                  let p = str_strip rt lora_path in
                  if \<not> path_exists rt p then (h, msg_path_not_found p)
                  else if \<not> path_exists rt (path_join p ''adapter_config.json'') then
                    (h, msg_invalid_adapter p)
                  else if \<not> peft_installed rt then (h, msg_no_peft)
                  else load_adapter rt h mo p)))"

text \<open>
  In \<^verbatim>\<open>unload_lora\<close> the copy is made before \<^verbatim>\<open>self.model\<close> is read, and a model that
  is \<^verbatim>\<open>None\<close> raises \<^verbatim>\<open>AttributeError\<close> inside the \<^verbatim>\<open>try\<close> block.
\<close>

definition unload_lora :: "runtime \<Rightarrow> handler \<Rightarrow> handler \<times> message" where
  "unload_lora rt h =
     (if \<not> lora_loaded h then (h, msg_nothing_loaded)
      else
        (case base_decoder h of
           None \<Rightarrow> (h, msg_no_backup)
         | Some b \<Rightarrow>
             (case deepcopy rt b of
                Inl e \<Rightarrow> (h, msg_unload_failed e)
              | Inr c \<Rightarrow>
                  (case model h of
                     None \<Rightarrow> (h, msg_unload_failed ''AttributeError'')
                   | Some mo \<Rightarrow>
                       (case place_decoder rt h c of
                          (d', Some e) \<Rightarrow>
                            (h\<lparr>model := Some (mo\<lparr>decoder := d'\<rparr>)\<rparr>, msg_unload_failed e)
                        | (d', None) \<Rightarrow>
                            (h\<lparr>model := Some (mo\<lparr>decoder := d'\<rparr>), lora_loaded := False,
                               use_lora := False, lora_scale := 1\<rparr>,
                             msg_unloaded))))))"

subsection \<open>\<^verbatim>\<open>set_use_lora\<close>\<close>

definition msg_not_loaded :: message where
  "msg_not_loaded = (Cross, [Lit ''No LoRA adapter loaded. Please load a LoRA first.''])"

definition msg_toggled :: "bool \<Rightarrow> message" where
  "msg_toggled flag = (Check, [Lit ''LoRA '', Val (if flag then ''enabled'' else ''disabled'')])"

text \<open>
  The \<^verbatim>\<open>try\<close> block of \<^verbatim>\<open>set_use_lora\<close>, entered when an adapter is loaded and the
  decoder has \<^verbatim>\<open>disable_adapter_layers\<close>; an exception is logged and dropped.
\<close>

definition toggle_layers :: "runtime \<Rightarrow> handler \<Rightarrow> model_obj \<Rightarrow> bool \<Rightarrow> handler" where
  "toggle_layers rt h mo flag =
     (if flag then
        (case enable_adapter_layers rt (decoder mo) of
           (d', Some e) \<Rightarrow> h\<lparr>model := Some (mo\<lparr>decoder := d'\<rparr>)\<rparr>
         | (d', None) \<Rightarrow>
             (let h1 = h\<lparr>model := Some (mo\<lparr>decoder := d'\<rparr>)\<rparr> in
              if lora_scale h1 \<noteq> 1 then fst (set_lora_scale rt h1 (lora_scale h1)) else h1))
      else
        (case disable_adapter_layers rt (decoder mo) of
           (d', e) \<Rightarrow> h\<lparr>model := Some (mo\<lparr>decoder := d'\<rparr>)\<rparr>))"

text \<open>
  \<^verbatim>\<open>set_use_lora\<close> reads \<^verbatim>\<open>self.model.decoder\<close> outside every \<^verbatim>\<open>try\<close> block: with an
  adapter loaded and no model, \<^verbatim>\<open>AttributeError\<close> reaches the caller (\<open>Inl\<close>), after
  the flag was written.
\<close>

definition set_use_lora :: "runtime \<Rightarrow> handler \<Rightarrow> bool \<Rightarrow> handler \<times> (exn + message)" where
  "set_use_lora rt h flag =
     (if flag \<and> \<not> lora_loaded h then (h, Inr msg_not_loaded)
      else
        let h1 = h\<lparr>use_lora := flag\<rparr> in
        if lora_loaded h1 then
          (case model h1 of
             None \<Rightarrow> (h1, Inl ''AttributeError'')
           | Some mo \<Rightarrow>
               (if has_disable_adapter_layers (decoder mo)
                then (toggle_layers rt h1 mo flag, Inr (msg_toggled flag))
                else (h1, Inr (msg_toggled flag))))
        else (h1, Inr (msg_toggled flag)))"

subsection \<open>Sequences of operations\<close>

datatype operation = Load string | Unload | SetEnabled bool | SetScale real | GetStatus

text \<open>The handler after one operation, and after a sequence of operations.\<close>

fun perform :: "runtime \<Rightarrow> handler \<Rightarrow> operation \<Rightarrow> handler" where
  "perform rt h (Load p) = fst (load_lora rt h p)"
| "perform rt h Unload = fst (unload_lora rt h)"
| "perform rt h (SetEnabled flag) = fst (set_use_lora rt h flag)"
| "perform rt h (SetScale x) = fst (set_lora_scale rt h x)"
| "perform rt h GetStatus = h"

definition run :: "runtime \<Rightarrow> handler \<Rightarrow> operation list \<Rightarrow> handler" where
  "run rt h ops = foldl (perform rt) h ops"

subsection \<open>The vocabulary of the properties\<close>

text \<open>The invariants of the adapter state: an enabled adapter is loaded, the scale is in \<open>[0, 1]\<close>.\<close>

definition flags_ok :: "handler \<Rightarrow> bool" where
  "flags_ok h \<longleftrightarrow> (use_lora h \<longrightarrow> lora_loaded h)"

definition scale_ok :: "handler \<Rightarrow> bool" where
  "scale_ok h \<longleftrightarrow> 0 \<le> lora_scale h \<and> lora_scale h \<le> 1"

text \<open>A loaded adapter sits on an initialised model: \<^verbatim>\<open>load_lora\<close> sets the flag only then.\<close>

definition model_ok :: "handler \<Rightarrow> bool" where
  "model_ok h \<longleftrightarrow> (lora_loaded h \<longrightarrow> model h \<noteq> None)"

text \<open>The clamp of the specification, \<open>clamp x lo hi\<close>.\<close>

definition clamp :: "real \<Rightarrow> real \<Rightarrow> real \<Rightarrow> real" where
  "clamp x lo hi = (if x < lo then lo else if hi < x then hi else x)"

text \<open>
  The modules that the first loop of \<^verbatim>\<open>set_lora_scale\<close> rescales: the name holds
  \<^verbatim>\<open>lora_\<close> and \<^verbatim>\<open>scaling\<close> is a dict or a number.
\<close>

definition is_scaled :: "string \<times> module_obj \<Rightarrow> bool" where
  "is_scaled nm \<longleftrightarrow>
     contains (fst nm) ''lora_'' \<and>
     (case scaling (snd nm) of
        Some (ScalingDict d) \<Rightarrow> True
      | Some (ScalingNum v) \<Rightarrow> True
      | _ \<Rightarrow> False)"

text \<open>
  A saved \<^verbatim>\<open>_original_scaling\<close> fits the module when it was captured from the module's
  \<^verbatim>\<open>scaling\<close>: it is of the same kind, and has an entry for every key of a dict.
\<close>

definition saved_fits :: "module_obj \<Rightarrow> bool" where
  "saved_fits m \<longleftrightarrow>
     (case original_scaling m of
        None \<Rightarrow> True
      | Some ov \<Rightarrow>
          (case scaling m of
             Some (ScalingDict d) \<Rightarrow>
               (case ov of
                  ScalingDict od \<Rightarrow> list_all (\<lambda>k. map_of od k \<noteq> None) (map fst d)
                | _ \<Rightarrow> False)
           | Some (ScalingNum v) \<Rightarrow> (case ov of ScalingNum w \<Rightarrow> True | _ \<Rightarrow> False)
           | _ \<Rightarrow> True))"

text \<open>
  The original value of a module's scaling, as the first touch captures it: the saved
  one when there is one, else the live one.
\<close>

definition captured :: "module_obj \<Rightarrow> scaling_attr" where
  "captured m =
     (case original_scaling m of
        Some ov \<Rightarrow> ov
      | None \<Rightarrow> (case scaling m of Some v \<Rightarrow> v | None \<Rightarrow> ScalingOther))"

text \<open>
  \<open>times orig s live\<close> is \<open>orig * s\<close>: the product for a number, and for a dict the
  items of the live dict with each value replaced by the original one times \<open>s\<close>.
\<close>

definition times :: "scaling_attr \<Rightarrow> real \<Rightarrow> scaling_attr option \<Rightarrow> scaling_attr" where
  "times orig s live =
     (case orig of
        ScalingNum ov \<Rightarrow> ScalingNum (ov * s)
      | ScalingDict od \<Rightarrow>
          (case live of
             Some (ScalingDict d) \<Rightarrow>
               ScalingDict (map (\<lambda>(k, v). (k, case map_of od k of Some ov \<Rightarrow> ov * s | None \<Rightarrow> v)) d)
           | _ \<Rightarrow> ScalingOther)
      | ScalingOther \<Rightarrow> ScalingOther)"

text \<open>The modules of the handler's decoder, \<^verbatim>\<open>self.model.decoder.named_modules()\<close>.\<close>

definition modules_of :: "handler \<Rightarrow> (string \<times> module_obj) list" where
  "modules_of h = (case model h of None \<Rightarrow> [] | Some mo \<Rightarrow> named_modules (decoder mo))"

text \<open>Every module that the first loop rescales has a saved original that fits, or none.\<close>

definition modules_fit :: "(string \<times> module_obj) list \<Rightarrow> bool" where
  "modules_fit ms \<longleftrightarrow> list_all (\<lambda>nm. is_scaled nm \<longrightarrow> saved_fits (snd nm)) ms"

text \<open>
  What the first loop is meant to do to a module it rescales: save the original and set
  the live value to the original times \<open>s\<close>; and to any module, by its name.
\<close>

definition rescaled :: "real \<Rightarrow> module_obj \<Rightarrow> module_obj" where
  "rescaled s m =
     m\<lparr>scaling := Some (times (captured m) s (scaling m)), original_scaling := Some (captured m)\<rparr>"

definition touch :: "real \<Rightarrow> string \<times> module_obj \<Rightarrow> string \<times> module_obj" where
  "touch s nm = (if is_scaled nm then (fst nm, rescaled s (snd nm)) else nm)"

subsection \<open>Example states\<close>

definition plain_module :: module_obj where
  "plain_module =
     \<lparr>scaling = Some (ScalingNum (1 / 8)), original_scaling = None,
      class_module = ''torch.nn.modules.linear'', class_name = ''Linear'',
      has_set_scale = False, has_scale_layer = False\<rparr>"

definition lora_module :: module_obj where
  "lora_module =
     \<lparr>scaling = Some (ScalingDict [(''default'', 2)]), original_scaling = None,
      class_module = ''peft.tuners.lora.layer'', class_name = ''Linear'',
      has_set_scale = True, has_scale_layer = True\<rparr>"

definition base_dec :: decoder_obj where
  "base_dec =
     \<lparr>named_modules = [(''layers.0.attn'', plain_module)],
      has_disable_adapter_layers = False, active_adapters = None, peft_config = None\<rparr>"

definition peft_dec :: decoder_obj where
  "peft_dec =
     \<lparr>named_modules =
        [(''layers.0.attn'', plain_module),
         (''layers.0.lora_q'', lora_module),
         (''layers.0.lora_v'', lora_module\<lparr>scaling := Some (ScalingNum 4)\<rparr>)],
      has_disable_adapter_layers = True,
      active_adapters = Some (AdaptersPlain (AdaptersSeq [Some ''default''])),
      peft_config = Some (ConfigDict [Some ''default''])\<rparr>"

text \<open>A runtime in which every foreign call succeeds, and one in which \<^verbatim>\<open>.to()\<close> raises.\<close>

definition calm_runtime :: runtime where
  "calm_runtime =
     \<lparr>str_strip = strip, path_exists = (\<lambda>p. True), peft_installed = True,
      deepcopy_raises = (\<lambda>d. None),
      from_pretrained = (\<lambda>d p. (peft_dec, None)),
      module_to = (\<lambda>d x. (d, None)), eval_mode = (\<lambda>d. (d, None)),
      enable_adapter_layers = (\<lambda>d. (d, None)), disable_adapter_layers = (\<lambda>d. (d, None)),
      set_scale = (\<lambda>m a s. (m, None)), scale_layer = (\<lambda>m s. (m, None))\<rparr>"

definition failing_runtime :: runtime where
  "failing_runtime = calm_runtime\<lparr>module_to := (\<lambda>d x. (d, Some ''CUDA out of memory''))\<rparr>"

definition fresh_handler :: handler where
  "fresh_handler =
     \<lparr>model = Some \<lparr>decoder = base_dec\<rparr>, device = ''cuda'', dtype = ''bfloat16'',
      quantization = None, lora_loaded = False, use_lora = False, lora_scale = 1,
      base_decoder = None\<rparr>"

definition loaded_handler :: handler where
  "loaded_handler =
     fresh_handler\<lparr>model := Some \<lparr>decoder = peft_dec\<rparr>, lora_loaded := True, use_lora := True,
                   base_decoder := Some base_dec\<rparr>"

section \<open>Properties\<close>

subsection \<open>What each operation does to the flags, the scale and the model\<close>

lemma py_clamp: "py_max 0 (py_min 1 x) = clamp x 0 1"
  by (simp add: py_max_def py_min_def clamp_def)

lemma clamp_range: "0 \<le> clamp x 0 1 \<and> clamp x 0 1 \<le> 1"
  by (simp add: clamp_def)

lemma set_lora_scale_frame:
  "lora_loaded (fst (set_lora_scale rt h x)) = lora_loaded h
   \<and> use_lora (fst (set_lora_scale rt h x)) = use_lora h
   \<and> base_decoder (fst (set_lora_scale rt h x)) = base_decoder h
   \<and> quantization (fst (set_lora_scale rt h x)) = quantization h
   \<and> (model (fst (set_lora_scale rt h x)) = None) = (model h = None)"
  by (simp add: set_lora_scale_def Let_def split: option.split prod.split)

lemma set_lora_scale_scale:
  "lora_scale (fst (set_lora_scale rt h x)) = (if lora_loaded h then clamp x 0 1 else lora_scale h)"
  by (simp add: set_lora_scale_def Let_def py_clamp split: option.split prod.split)

lemma load_lora_effect:
  "(lora_loaded (fst (load_lora rt h p)) = lora_loaded h
      \<and> use_lora (fst (load_lora rt h p)) = use_lora h
      \<and> \<not> is_success (snd (load_lora rt h p))
    \<or> lora_loaded (fst (load_lora rt h p)) \<and> use_lora (fst (load_lora rt h p))
      \<and> is_success (snd (load_lora rt h p)))
   \<and> lora_scale (fst (load_lora rt h p)) = lora_scale h
   \<and> (model (fst (load_lora rt h p)) \<noteq> None) = (model h \<noteq> None)"
  by (simp add: load_lora_def load_adapter_def Let_def is_success_def
      msg_not_initialized_def msg_quantized_def msg_no_path_def msg_path_not_found_def
      msg_invalid_adapter_def msg_no_peft_def msg_loaded_def msg_load_failed_def
      split: option.split sum.split prod.split)

lemma unload_lora_effect:
  "(lora_loaded (fst (unload_lora rt h)) = lora_loaded h
      \<and> use_lora (fst (unload_lora rt h)) = use_lora h
      \<and> lora_scale (fst (unload_lora rt h)) = lora_scale h
      \<and> \<not> is_success (snd (unload_lora rt h))
    \<or> \<not> lora_loaded (fst (unload_lora rt h)) \<and> \<not> use_lora (fst (unload_lora rt h))
      \<and> lora_scale (fst (unload_lora rt h)) = 1
      \<and> is_success (snd (unload_lora rt h)))
   \<and> (model (fst (unload_lora rt h)) \<noteq> None) = (model h \<noteq> None)"
  by (simp add: unload_lora_def Let_def is_success_def
      msg_nothing_loaded_def msg_no_backup_def msg_unloaded_def msg_unload_failed_def
      split: option.split sum.split prod.split)

lemma toggle_layers_effect:
  "lora_loaded (toggle_layers rt h mo flag) = lora_loaded h
   \<and> use_lora (toggle_layers rt h mo flag) = use_lora h
   \<and> (lora_scale (toggle_layers rt h mo flag) = lora_scale h
        \<or> lora_scale (toggle_layers rt h mo flag) = clamp (lora_scale h) 0 1)
   \<and> model (toggle_layers rt h mo flag) \<noteq> None"
  using set_lora_scale_frame [of rt "h\<lparr>model := Some (mo\<lparr>decoder := fst (enable_adapter_layers rt (decoder mo))\<rparr>)\<rparr>" "lora_scale h"]
    set_lora_scale_scale [of rt "h\<lparr>model := Some (mo\<lparr>decoder := fst (enable_adapter_layers rt (decoder mo))\<rparr>)\<rparr>" "lora_scale h"]
  by (auto simp add: toggle_layers_def Let_def split: option.split prod.split)

lemma set_use_lora_effect:
  "lora_loaded (fst (set_use_lora rt h flag)) = lora_loaded h
   \<and> use_lora (fst (set_use_lora rt h flag)) = (if flag \<and> \<not> lora_loaded h then use_lora h else flag)
   \<and> (lora_scale (fst (set_use_lora rt h flag)) = lora_scale h
        \<or> lora_scale (fst (set_use_lora rt h flag)) = clamp (lora_scale h) 0 1)
   \<and> (model (fst (set_use_lora rt h flag)) \<noteq> None) = (model h \<noteq> None)"
  using toggle_layers_effect [of rt "h\<lparr>use_lora := flag\<rparr>" _ flag]
  by (simp add: set_use_lora_def Let_def split: option.split)

lemma perform_flags_ok: "flags_ok h \<Longrightarrow> flags_ok (perform rt h op)"
proof (cases op)
  case (Load p)
  then show "flags_ok h \<Longrightarrow> ?thesis" using load_lora_effect [of rt h p] by (auto simp: flags_ok_def)
next
  case Unload
  then show "flags_ok h \<Longrightarrow> ?thesis" using unload_lora_effect [of rt h] by (auto simp: flags_ok_def)
next
  case (SetEnabled flag)
  then show "flags_ok h \<Longrightarrow> ?thesis" using set_use_lora_effect [of rt h flag] by (auto simp: flags_ok_def)
next
  case (SetScale x)
  then show "flags_ok h \<Longrightarrow> ?thesis" using set_lora_scale_frame [of rt h x] by (auto simp: flags_ok_def)
next
  case GetStatus
  then show "flags_ok h \<Longrightarrow> ?thesis" by simp
qed

lemma perform_scale_ok: "scale_ok h \<Longrightarrow> scale_ok (perform rt h op)"
proof (cases op)
  case (Load p)
  then show "scale_ok h \<Longrightarrow> ?thesis" using load_lora_effect [of rt h p] by (auto simp: scale_ok_def)
next
  case Unload
  then show "scale_ok h \<Longrightarrow> ?thesis" using unload_lora_effect [of rt h] by (auto simp: scale_ok_def)
next
  case (SetEnabled flag)
  then show "scale_ok h \<Longrightarrow> ?thesis"
    using set_use_lora_effect [of rt h flag] clamp_range [of "lora_scale h"]
    by (auto simp: scale_ok_def)
next
  case (SetScale x)
  then show "scale_ok h \<Longrightarrow> ?thesis"
    using set_lora_scale_scale [of rt h x] clamp_range [of x] by (auto simp: scale_ok_def)
next
  case GetStatus
  then show "scale_ok h \<Longrightarrow> ?thesis" by simp
qed

lemma perform_model_ok: "model_ok h \<Longrightarrow> model_ok (perform rt h op)"
proof (cases op)
  case (Load p)
  then show "model_ok h \<Longrightarrow> ?thesis"
    using load_lora_effect [of rt h p] by (auto simp: model_ok_def load_lora_def)
next
  case Unload
  then show "model_ok h \<Longrightarrow> ?thesis" using unload_lora_effect [of rt h] by (auto simp: model_ok_def)
next
  case (SetEnabled flag)
  then show "model_ok h \<Longrightarrow> ?thesis" using set_use_lora_effect [of rt h flag] by (auto simp: model_ok_def)
next
  case (SetScale x)
  then show "model_ok h \<Longrightarrow> ?thesis" using set_lora_scale_frame [of rt h x] by (auto simp: model_ok_def)
next
  case GetStatus
  then show "model_ok h \<Longrightarrow> ?thesis" by simp
qed

lemma run_snoc: "run rt h (ops @ [op]) = perform rt (run rt h ops) op"
  by (simp add: run_def)

lemma run_invariant:
  assumes step: "\<And>h op. P h \<Longrightarrow> P (perform rt h op)" and init: "P h"
  shows "P (run rt h ops)"
proof (induction ops rule: rev_induct)
  case Nil
  show ?case using init by (simp add: run_def)
next
  case (snoc op ops)
  then show ?case by (simp add: run_snoc step)
qed

lemma example_load:
  "load_lora calm_runtime fresh_handler ''/adapters/style''
     = (loaded_handler, msg_loaded ''/adapters/style'')"
  by (simp add: load_lora_def strip_def is_space_def calm_runtime_def fresh_handler_def
      loaded_handler_def path_join_def load_adapter_def deepcopy_def load_decoder_def
      place_decoder_def)

lemma example_unload:
  "unload_lora calm_runtime loaded_handler
     = (fresh_handler\<lparr>base_decoder := Some base_dec\<rparr>, msg_unloaded)"
  by (simp add: unload_lora_def calm_runtime_def fresh_handler_def
      loaded_handler_def deepcopy_def place_decoder_def)

subsection \<open>An enabled adapter is loaded\<close>

text \<open>
  Claim C1. From a handler in which \<^verbatim>\<open>use_lora\<close> implies \<^verbatim>\<open>lora_loaded\<close>, the
  implication holds after every prefix of every sequence of operations, and after every
  single operation (so no operation sets \<^verbatim>\<open>use_lora\<close> while \<^verbatim>\<open>lora_loaded\<close> is
  false); a load that succeeds sets both flags, an unload that succeeds clears both, and
  \<^verbatim>\<open>set_use_lora(True)\<close> is refused when nothing is loaded. Where \<^verbatim>\<open>set_use_lora\<close>
  raises instead of returning, the handler it leaves behind is covered as well.
\<close>

theorem enabled_implies_loaded:
  "(flags_ok h \<longrightarrow> (\<forall>n. flags_ok (run rt h (take n ops))))
   \<and> (flags_ok h \<longrightarrow> flags_ok (perform rt h op))
   \<and> (is_success (snd (load_lora rt h p)) \<longrightarrow>
        lora_loaded (fst (load_lora rt h p)) \<and> use_lora (fst (load_lora rt h p)))
   \<and> (is_success (snd (unload_lora rt h)) \<longrightarrow>
        \<not> lora_loaded (fst (unload_lora rt h)) \<and> \<not> use_lora (fst (unload_lora rt h)))
   \<and> (\<not> lora_loaded h \<longrightarrow> set_use_lora rt h True = (h, Inr msg_not_loaded))"
proof -
  have "flags_ok (run rt h (take n ops))" if "flags_ok h" for n
    using that run_invariant [of flags_ok rt h "take n ops"] perform_flags_ok by blast
  moreover have "flags_ok (perform rt h op)" if "flags_ok h"
    using that by (rule perform_flags_ok)
  moreover have "lora_loaded (fst (load_lora rt h p)) \<and> use_lora (fst (load_lora rt h p))"
    if "is_success (snd (load_lora rt h p))"
    using that load_lora_effect [of rt h p] by blast
  moreover have "\<not> lora_loaded (fst (unload_lora rt h)) \<and> \<not> use_lora (fst (unload_lora rt h))"
    if "is_success (snd (unload_lora rt h))"
    using that unload_lora_effect [of rt h] by blast
  moreover have "set_use_lora rt h True = (h, Inr msg_not_loaded)" if "\<not> lora_loaded h"
    using that by (simp add: set_use_lora_def)
  ultimately show ?thesis by blast
qed

theorem enabled_implies_loaded_witness:
  "flags_ok fresh_handler
   \<and> flags_ok (run calm_runtime fresh_handler
        (take 3 [SetEnabled True, Load ''/adapters/style'', SetScale (1 / 2), SetEnabled False, Unload]))
   \<and> flags_ok (perform calm_runtime fresh_handler (Load ''/adapters/style''))
   \<and> is_success (snd (load_lora calm_runtime fresh_handler ''/adapters/style''))
   \<and> lora_loaded (fst (load_lora calm_runtime fresh_handler ''/adapters/style''))
   \<and> use_lora (fst (load_lora calm_runtime fresh_handler ''/adapters/style''))
   \<and> is_success (snd (unload_lora calm_runtime loaded_handler))
   \<and> \<not> lora_loaded (fst (unload_lora calm_runtime loaded_handler))
   \<and> \<not> use_lora (fst (unload_lora calm_runtime loaded_handler))
   \<and> \<not> lora_loaded fresh_handler
   \<and> set_use_lora calm_runtime fresh_handler True = (fresh_handler, Inr msg_not_loaded)"
proof -
  have f: "flags_ok fresh_handler"
    by (simp add: flags_ok_def fresh_handler_def)
  have l: "is_success (snd (load_lora calm_runtime fresh_handler ''/adapters/style''))"
    by (simp add: example_load is_success_def msg_loaded_def)
  have u: "is_success (snd (unload_lora calm_runtime loaded_handler))"
    by (simp add: example_unload is_success_def msg_unloaded_def)
  have n: "\<not> lora_loaded fresh_handler"
    by (simp add: fresh_handler_def)
  show ?thesis
    using f l u n
      enabled_implies_loaded [of fresh_handler calm_runtime
        "[SetEnabled True, Load ''/adapters/style'', SetScale (1 / 2), SetEnabled False, Unload]"
        "Load ''/adapters/style''" "''/adapters/style''"]
      enabled_implies_loaded [of loaded_handler calm_runtime "[]" GetStatus "[]"]
    by blast
qed

subsection \<open>The scale stays in range\<close>

text \<open>
  Claim C8. From a handler whose \<^verbatim>\<open>lora_scale\<close> is in \<open>[0, 1]\<close>, it is in \<open>[0, 1]\<close>
  after every prefix of every sequence of operations and after every single operation:
  \<^verbatim>\<open>set_lora_scale\<close> stores \<^verbatim>\<open>max(0.0, min(1.0, scale))\<close>, which is in the range, a
  successful unload stores 1, \<^verbatim>\<open>load_lora\<close> never writes the scale, and \<^verbatim>\<open>set_use_lora\<close>
  leaves a scale that is in the range as it is.
\<close>

theorem scale_stays_in_range:
  "(scale_ok h \<longrightarrow> (\<forall>n. scale_ok (run rt h (take n ops))))
   \<and> (scale_ok h \<longrightarrow> scale_ok (perform rt h op))
   \<and> (lora_loaded h \<longrightarrow> lora_scale (fst (set_lora_scale rt h x)) = py_max 0 (py_min 1 x)
        \<and> 0 \<le> py_max 0 (py_min 1 x) \<and> py_max 0 (py_min 1 x) \<le> 1)
   \<and> (is_success (snd (unload_lora rt h)) \<longrightarrow> lora_scale (fst (unload_lora rt h)) = 1)
   \<and> lora_scale (fst (load_lora rt h p)) = lora_scale h
   \<and> (scale_ok h \<longrightarrow> lora_scale (fst (set_use_lora rt h flag)) = lora_scale h)"
proof -
  have "scale_ok (run rt h (take n ops))" if "scale_ok h" for n
    using that run_invariant [of scale_ok rt h "take n ops"] perform_scale_ok by blast
  moreover have "scale_ok (perform rt h op)" if "scale_ok h"
    using that by (rule perform_scale_ok)
  moreover have "lora_scale (fst (set_lora_scale rt h x)) = py_max 0 (py_min 1 x)
        \<and> 0 \<le> py_max 0 (py_min 1 x) \<and> py_max 0 (py_min 1 x) \<le> 1" if "lora_loaded h"
    using that set_lora_scale_scale [of rt h x] clamp_range [of x] by (simp add: py_clamp)
  moreover have "lora_scale (fst (unload_lora rt h)) = 1" if "is_success (snd (unload_lora rt h))"
    using that unload_lora_effect [of rt h] by blast
  moreover have "lora_scale (fst (load_lora rt h p)) = lora_scale h"
    using load_lora_effect [of rt h p] by blast
  moreover have "lora_scale (fst (set_use_lora rt h flag)) = lora_scale h" if "scale_ok h"
    using that set_use_lora_effect [of rt h flag] by (auto simp: scale_ok_def clamp_def)
  ultimately show ?thesis by blast
qed

theorem scale_stays_in_range_witness:
  "scale_ok fresh_handler
   \<and> scale_ok (run calm_runtime fresh_handler
        (take 2 [Load ''/adapters/style'', SetScale 7, SetEnabled False, Unload]))
   \<and> scale_ok (perform calm_runtime fresh_handler (SetScale 7))
   \<and> lora_loaded loaded_handler
   \<and> lora_scale (fst (set_lora_scale calm_runtime loaded_handler 7)) = 1
   \<and> lora_scale (fst (set_lora_scale calm_runtime loaded_handler (- 3))) = 0
   \<and> is_success (snd (unload_lora calm_runtime loaded_handler))
   \<and> lora_scale (fst (unload_lora calm_runtime loaded_handler)) = 1
   \<and> lora_scale (fst (set_use_lora calm_runtime fresh_handler False)) = lora_scale fresh_handler"
proof -
  have s: "scale_ok fresh_handler"
    by (simp add: scale_ok_def fresh_handler_def)
  have l: "lora_loaded loaded_handler"
    by (simp add: loaded_handler_def)
  have u: "is_success (snd (unload_lora calm_runtime loaded_handler))"
    by (simp add: example_unload is_success_def msg_unloaded_def)
  have c: "py_max 0 (py_min 1 7) = 1 \<and> py_max 0 (py_min 1 (- 3)) = 0"
    by (simp add: py_max_def py_min_def)
  have r: "scale_ok (run calm_runtime fresh_handler
        (take 2 [Load ''/adapters/style'', SetScale 7, SetEnabled False, Unload]))"
    using s scale_stays_in_range [of fresh_handler calm_runtime
        "[Load ''/adapters/style'', SetScale 7, SetEnabled False, Unload]"
        "SetScale 7" 7 "[]" False]
    by blast
  have p: "scale_ok (perform calm_runtime fresh_handler (SetScale 7))
      \<and> lora_scale (fst (set_use_lora calm_runtime fresh_handler False)) = lora_scale fresh_handler"
    using s scale_stays_in_range [of fresh_handler calm_runtime "[]" "SetScale 7" 7 "[]" False]
    by blast
  have x: "lora_scale (fst (set_lora_scale calm_runtime loaded_handler 7)) = 1
      \<and> lora_scale (fst (unload_lora calm_runtime loaded_handler)) = 1"
    using l u c scale_stays_in_range [of loaded_handler calm_runtime "[]" GetStatus 7 "[]" False]
    by simp
  have y: "lora_scale (fst (set_lora_scale calm_runtime loaded_handler (- 3))) = 0"
    using l c scale_stays_in_range [of loaded_handler calm_runtime "[]" GetStatus "- 3" "[]" False]
    by simp
  show ?thesis
    using s l u r p x y by blast
qed

subsection \<open>\<^verbatim>\<open>set_lora_scale\<close> stores the clamp\<close>

text \<open>
  As stated, for every state, claim C2 fails: with no adapter loaded \<^verbatim>\<open>set_lora_scale\<close>
  returns at its first check and the stored scale stays what it was.
\<close>

theorem set_scale_counterexample:
  "lora_scale (fst (set_lora_scale calm_runtime fresh_handler (1 / 2))) = 1
   \<and> clamp (1 / 2) 0 1 = 1 / 2
   \<and> lora_scale (fst (set_lora_scale calm_runtime fresh_handler (1 / 2))) \<noteq> clamp (1 / 2) 0 1"
  by (simp add: set_lora_scale_def fresh_handler_def clamp_def)

text \<open>
  Claim C2, amended. With an adapter loaded, \<^verbatim>\<open>set_lora_scale(x)\<close> stores
  \<open>clamp x 0 1\<close>, for every runtime and every decoder: whether the modules are rescaled,
  an exception ends the loop, no module is found, or the adapter is disabled. With no
  adapter loaded it returns the warning and the handler as it was.
\<close>

theorem set_scale_stores_clamp:
  "(lora_loaded h \<longrightarrow> lora_scale (fst (set_lora_scale rt h x)) = clamp x 0 1)
   \<and> (\<not> lora_loaded h \<longrightarrow> set_lora_scale rt h x = (h, msg_no_lora))"
proof -
  have "lora_scale (fst (set_lora_scale rt h x)) = clamp x 0 1" if "lora_loaded h"
    using that set_lora_scale_scale [of rt h x] by simp
  moreover have "set_lora_scale rt h x = (h, msg_no_lora)" if "\<not> lora_loaded h"
    using that by (simp add: set_lora_scale_def)
  ultimately show ?thesis by blast
qed

theorem set_scale_stores_clamp_witness:
  "lora_loaded loaded_handler
   \<and> lora_scale (fst (set_lora_scale calm_runtime loaded_handler 7)) = 1
   \<and> lora_loaded (loaded_handler\<lparr>model := Some \<lparr>decoder = base_dec\<rparr>\<rparr>)
   \<and> snd (set_lora_scale calm_runtime (loaded_handler\<lparr>model := Some \<lparr>decoder = base_dec\<rparr>\<rparr>) (1 / 2))
       = msg_scale_none (1 / 2)
   \<and> lora_scale (fst (set_lora_scale calm_runtime
         (loaded_handler\<lparr>model := Some \<lparr>decoder = base_dec\<rparr>\<rparr>) (1 / 2))) = 1 / 2
   \<and> lora_loaded (loaded_handler\<lparr>model := Some \<lparr>decoder = peft_dec\<lparr>named_modules :=
         [(''layers.0.lora_q'', lora_module\<lparr>original_scaling := Some (ScalingNum 2)\<rparr>)]\<rparr>\<rparr>\<rparr>)
   \<and> snd (set_lora_scale calm_runtime (loaded_handler\<lparr>model := Some \<lparr>decoder = peft_dec\<lparr>named_modules :=
         [(''layers.0.lora_q'', lora_module\<lparr>original_scaling := Some (ScalingNum 2)\<rparr>)]\<rparr>\<rparr>\<rparr>) (1 / 4))
       = msg_scale_partial (1 / 4)
   \<and> lora_scale (fst (set_lora_scale calm_runtime (loaded_handler\<lparr>model := Some \<lparr>decoder = peft_dec\<lparr>named_modules :=
         [(''layers.0.lora_q'', lora_module\<lparr>original_scaling := Some (ScalingNum 2)\<rparr>)]\<rparr>\<rparr>\<rparr>) (1 / 4)))
       = 1 / 4
   \<and> \<not> lora_loaded fresh_handler
   \<and> set_lora_scale calm_runtime fresh_handler (1 / 2) = (fresh_handler, msg_no_lora)"
proof -
  let ?none = "loaded_handler\<lparr>model := Some \<lparr>decoder = base_dec\<rparr>\<rparr>"
  let ?bad = "loaded_handler\<lparr>model := Some \<lparr>decoder = peft_dec\<lparr>named_modules :=
         [(''layers.0.lora_q'', lora_module\<lparr>original_scaling := Some (ScalingNum 2)\<rparr>)]\<rparr>\<rparr>\<rparr>"
  have l: "lora_loaded loaded_handler" "lora_loaded ?none" "lora_loaded ?bad" "\<not> lora_loaded fresh_handler"
    by (simp_all add: loaded_handler_def fresh_handler_def)
  have c: "clamp 7 0 1 = 1" "clamp (1 / 2) 0 1 = 1 / 2" "clamp (1 / 4) 0 1 = 1 / 4"
    by (simp_all add: clamp_def)
  have m1: "snd (set_lora_scale calm_runtime ?none (1 / 2)) = msg_scale_none (1 / 2)"
    by (simp add: set_lora_scale_def loaded_handler_def fresh_handler_def py_max_def py_min_def
        apply_scale_def base_dec_def plain_module_def discover_adapters_def listed_adapters_def
        fallback_module_def is_probably_lora_layer_def lower_def lower_char_def)
  have m2: "snd (set_lora_scale calm_runtime ?bad (1 / 4)) = msg_scale_partial (1 / 4)"
    by (simp add: set_lora_scale_def loaded_handler_def fresh_handler_def py_max_def py_min_def
        apply_scale_def peft_dec_def lora_module_def scale_module_def save_original_def)
  show ?thesis
    using l c m1 m2
      set_scale_stores_clamp [of loaded_handler calm_runtime 7]
      set_scale_stores_clamp [of ?none calm_runtime "1 / 2"]
      set_scale_stores_clamp [of ?bad calm_runtime "1 / 4"]
      set_scale_stores_clamp [of fresh_handler calm_runtime "1 / 2"]
    by simp
qed

subsection \<open>Loading on a quantized model\<close>

text \<open>
  Claim C3. On a handler whose model is initialised and whose \<^verbatim>\<open>quantization\<close> is not
  \<^verbatim>\<open>None\<close>, \<^verbatim>\<open>load_lora\<close> returns, for every path and every runtime, the handler as it
  was (so the flags, the scale, the backup and the decoder are unchanged) and a failure
  string that mentions quantization.
\<close>

theorem load_quantized_refused:
  "quantization h = Some q \<Longrightarrow> model h \<noteq> None \<Longrightarrow>
     load_lora rt h p = (h, msg_quantized q)
     \<and> is_failure (msg_quantized q) \<and> mentions ''quantized'' (msg_quantized q)"
  by (auto simp: load_lora_def is_failure_def mentions_def msg_quantized_def)

theorem load_quantized_refused_witness:
  "quantization (fresh_handler\<lparr>quantization := Some ''int8_weight_only''\<rparr>) = Some ''int8_weight_only''
   \<and> model (fresh_handler\<lparr>quantization := Some ''int8_weight_only''\<rparr>) \<noteq> None
   \<and> load_lora calm_runtime (fresh_handler\<lparr>quantization := Some ''int8_weight_only''\<rparr>) ''/adapters/style''
       = (fresh_handler\<lparr>quantization := Some ''int8_weight_only''\<rparr>, msg_quantized ''int8_weight_only'')
   \<and> mentions ''quantized'' (msg_quantized ''int8_weight_only'')"
  using load_quantized_refused [of "fresh_handler\<lparr>quantization := Some ''int8_weight_only''\<rparr>"
      "''int8_weight_only''" calm_runtime "''/adapters/style''"]
  by (simp add: fresh_handler_def)

subsection \<open>Enabling without an adapter\<close>

text \<open>
  Claim C6. On a handler with no adapter loaded, \<^verbatim>\<open>set_use_lora(True)\<close> returns a failure
  string and the handler as it was: \<^verbatim>\<open>use_lora\<close> and every other field are unchanged.
\<close>

theorem enable_needs_adapter:
  "\<not> lora_loaded h \<Longrightarrow>
     set_use_lora rt h True = (h, Inr msg_not_loaded) \<and> is_failure msg_not_loaded"
  by (simp add: set_use_lora_def is_failure_def msg_not_loaded_def)

theorem enable_needs_adapter_witness:
  "\<not> lora_loaded fresh_handler
   \<and> set_use_lora calm_runtime fresh_handler True = (fresh_handler, Inr msg_not_loaded)
   \<and> use_lora (fst (set_use_lora calm_runtime fresh_handler True)) = False"
  using enable_needs_adapter [of fresh_handler calm_runtime]
  by (simp add: fresh_handler_def)

subsection \<open>The status after \<^verbatim>\<open>unload_lora\<close>\<close>

text \<open>
  As stated, after any call that returns, claim C4 fails: when \<^verbatim>\<open>.to()\<close> raises, the
  \<^verbatim>\<open>except\<close> branch returns the failure string and the flags and the scale stay what
  they were.
\<close>

theorem unload_status_counterexample:
  "get_lora_status (fst (unload_lora failing_runtime (loaded_handler\<lparr>lora_scale := 1 / 2\<rparr>)))
     = \<lparr>loaded = True, active = True, scale = 1 / 2\<rparr>
   \<and> get_lora_status (fst (unload_lora failing_runtime (loaded_handler\<lparr>lora_scale := 1 / 2\<rparr>)))
     \<noteq> \<lparr>loaded = False, active = False, scale = 1\<rparr>"
  by (simp add: unload_lora_def failing_runtime_def calm_runtime_def fresh_handler_def
      loaded_handler_def deepcopy_def place_decoder_def get_lora_status_def)

text \<open>
  Claim C4, amended. After a call of \<^verbatim>\<open>unload_lora\<close> that returns its success string,
  \<^verbatim>\<open>get_lora_status\<close> gives \<^verbatim>\<open>{loaded: False, active: False, scale: 1.0}\<close>; after a
  call that returns anything else, it gives what it gave before the call.
\<close>

theorem unload_status:
  "(is_success (snd (unload_lora rt h)) \<longrightarrow>
      get_lora_status (fst (unload_lora rt h)) = \<lparr>loaded = False, active = False, scale = 1\<rparr>)
   \<and> (\<not> is_success (snd (unload_lora rt h)) \<longrightarrow>
      get_lora_status (fst (unload_lora rt h)) = get_lora_status h)"
  using unload_lora_effect [of rt h] by (auto simp: get_lora_status_def)

theorem unload_status_witness:
  "is_success (snd (unload_lora calm_runtime (loaded_handler\<lparr>lora_scale := 1 / 2\<rparr>)))
   \<and> get_lora_status (fst (unload_lora calm_runtime (loaded_handler\<lparr>lora_scale := 1 / 2\<rparr>)))
       = \<lparr>loaded = False, active = False, scale = 1\<rparr>
   \<and> \<not> is_success (snd (unload_lora failing_runtime (loaded_handler\<lparr>lora_scale := 1 / 2\<rparr>)))
   \<and> get_lora_status (fst (unload_lora failing_runtime (loaded_handler\<lparr>lora_scale := 1 / 2\<rparr>)))
       = \<lparr>loaded = True, active = True, scale = 1 / 2\<rparr>"
proof -
  have a: "is_success (snd (unload_lora calm_runtime (loaded_handler\<lparr>lora_scale := 1 / 2\<rparr>)))"
    by (simp add: unload_lora_def calm_runtime_def fresh_handler_def loaded_handler_def
        deepcopy_def place_decoder_def is_success_def msg_unloaded_def)
  have b: "\<not> is_success (snd (unload_lora failing_runtime (loaded_handler\<lparr>lora_scale := 1 / 2\<rparr>)))"
    by (simp add: unload_lora_def failing_runtime_def calm_runtime_def fresh_handler_def
        loaded_handler_def deepcopy_def place_decoder_def is_success_def msg_unload_failed_def)
  have c: "get_lora_status (loaded_handler\<lparr>lora_scale := 1 / 2\<rparr>)
             = \<lparr>loaded = True, active = True, scale = 1 / 2\<rparr>"
    by (simp add: get_lora_status_def loaded_handler_def fresh_handler_def)
  show ?thesis
    using a b c unload_status [of calm_runtime "loaded_handler\<lparr>lora_scale := 1 / 2\<rparr>"]
      unload_status [of failing_runtime "loaded_handler\<lparr>lora_scale := 1 / 2\<rparr>"]
    by simp
qed

subsection \<open>The checks of \<^verbatim>\<open>load_lora\<close>, in order\<close>

text \<open>
  Claim C7. \<^verbatim>\<open>load_lora\<close> returns the handler as it was and a failure string at the
  first check that fails, in this order: the model is initialised, the quantization is
  \<^verbatim>\<open>None\<close>, the path is not empty after stripping, the stripped path exists, the file
  \<^verbatim>\<open>adapter_config.json\<close> exists under it. Each result holds whatever the later checks
  would find (the remaining fields, the path, \<^verbatim>\<open>str.strip\<close> and the file system are
  arbitrary), and the last string names the missing file.
\<close>

theorem load_checks_in_order:
  "(model h = None \<longrightarrow> load_lora rt h p = (h, msg_not_initialized))
   \<and> (model h \<noteq> None \<and> quantization h = Some q \<longrightarrow> load_lora rt h p = (h, msg_quantized q))
   \<and> (model h \<noteq> None \<and> quantization h = None \<and> (p = [] \<or> str_strip rt p = []) \<longrightarrow>
        load_lora rt h p = (h, msg_no_path))
   \<and> (model h \<noteq> None \<and> quantization h = None \<and> p \<noteq> [] \<and> str_strip rt p \<noteq> []
        \<and> \<not> path_exists rt (str_strip rt p) \<longrightarrow>
        load_lora rt h p = (h, msg_path_not_found (str_strip rt p)))
   \<and> (model h \<noteq> None \<and> quantization h = None \<and> p \<noteq> [] \<and> str_strip rt p \<noteq> []
        \<and> path_exists rt (str_strip rt p)
        \<and> \<not> path_exists rt (path_join (str_strip rt p) ''adapter_config.json'') \<longrightarrow>
        load_lora rt h p = (h, msg_invalid_adapter (str_strip rt p)))
   \<and> is_failure msg_not_initialized \<and> is_failure (msg_quantized q) \<and> is_failure msg_no_path
   \<and> is_failure (msg_path_not_found (str_strip rt p))
   \<and> is_failure (msg_invalid_adapter (str_strip rt p))
   \<and> mentions ''adapter_config.json'' (msg_invalid_adapter (str_strip rt p))"
  by (auto simp: load_lora_def Let_def is_failure_def mentions_def
      msg_not_initialized_def msg_quantized_def msg_no_path_def msg_path_not_found_def
      msg_invalid_adapter_def)

theorem load_checks_in_order_witness:
  "load_lora calm_runtime (fresh_handler\<lparr>model := None, quantization := Some ''int8''\<rparr>) []
     = (fresh_handler\<lparr>model := None, quantization := Some ''int8''\<rparr>, msg_not_initialized)
   \<and> load_lora calm_runtime (fresh_handler\<lparr>quantization := Some ''int8''\<rparr>) []
     = (fresh_handler\<lparr>quantization := Some ''int8''\<rparr>, msg_quantized ''int8'')
   \<and> load_lora (calm_runtime\<lparr>path_exists := \<lambda>p. False\<rparr>) fresh_handler ''  ''
     = (fresh_handler, msg_no_path)
   \<and> load_lora (calm_runtime\<lparr>path_exists := \<lambda>p. False\<rparr>) fresh_handler '' /missing ''
     = (fresh_handler, msg_path_not_found ''/missing'')
   \<and> load_lora (calm_runtime\<lparr>path_exists := \<lambda>p. p = ''/adapters/style''\<rparr>) fresh_handler
        '' /adapters/style ''
     = (fresh_handler, msg_invalid_adapter ''/adapters/style'')
   \<and> mentions ''adapter_config.json'' (msg_invalid_adapter ''/adapters/style'')"
proof -
  have s: "str_strip (calm_runtime\<lparr>path_exists := \<lambda>p. False\<rparr>) ''  '' = []"
      "str_strip (calm_runtime\<lparr>path_exists := \<lambda>p. False\<rparr>) '' /missing '' = ''/missing''"
      "str_strip (calm_runtime\<lparr>path_exists := \<lambda>p. p = ''/adapters/style''\<rparr>)
         '' /adapters/style '' = ''/adapters/style''"
    by (simp_all add: calm_runtime_def strip_def is_space_def)
  have x: "path_exists (calm_runtime\<lparr>path_exists := \<lambda>p. False\<rparr>) ''/missing'' = False"
      "path_exists (calm_runtime\<lparr>path_exists := \<lambda>p. p = ''/adapters/style''\<rparr>)
         ''/adapters/style'' = True"
      "path_exists (calm_runtime\<lparr>path_exists := \<lambda>p. p = ''/adapters/style''\<rparr>)
         (path_join ''/adapters/style'' ''adapter_config.json'') = False"
    by (simp_all add: path_join_def)
  have h: "model (fresh_handler\<lparr>model := None, quantization := Some ''int8''\<rparr>) = None"
      "model (fresh_handler\<lparr>quantization := Some ''int8''\<rparr>) \<noteq> None"
      "quantization (fresh_handler\<lparr>quantization := Some ''int8''\<rparr>) = Some ''int8''"
      "model fresh_handler \<noteq> None" "quantization fresh_handler = None"
    by (simp_all add: fresh_handler_def)
  have a: "load_lora calm_runtime (fresh_handler\<lparr>model := None, quantization := Some ''int8''\<rparr>) []
     = (fresh_handler\<lparr>model := None, quantization := Some ''int8''\<rparr>, msg_not_initialized)"
    using h(1) load_checks_in_order [where h = "fresh_handler\<lparr>model := None, quantization := Some ''int8''\<rparr>"
        and rt = calm_runtime and p = "[]" and q = "''int8''"]
    by blast
  have b: "load_lora calm_runtime (fresh_handler\<lparr>quantization := Some ''int8''\<rparr>) []
     = (fresh_handler\<lparr>quantization := Some ''int8''\<rparr>, msg_quantized ''int8'')"
    using h(2,3) load_checks_in_order [where h = "fresh_handler\<lparr>quantization := Some ''int8''\<rparr>"
        and rt = calm_runtime and p = "[]" and q = "''int8''"]
    by blast
  have c: "load_lora (calm_runtime\<lparr>path_exists := \<lambda>p. False\<rparr>) fresh_handler ''  ''
     = (fresh_handler, msg_no_path)"
    using h(4,5) s(1) load_checks_in_order [where h = fresh_handler
        and rt = "calm_runtime\<lparr>path_exists := \<lambda>p. False\<rparr>" and p = "''  ''" and q = "[]"]
    by blast
  have d: "load_lora (calm_runtime\<lparr>path_exists := \<lambda>p. False\<rparr>) fresh_handler '' /missing ''
     = (fresh_handler, msg_path_not_found ''/missing'')"
    using h(4,5) x(1) load_checks_in_order [where h = fresh_handler
        and rt = "calm_runtime\<lparr>path_exists := \<lambda>p. False\<rparr>" and p = "'' /missing ''" and q = "[]"]
    unfolding s(2) by simp
  have e: "load_lora (calm_runtime\<lparr>path_exists := \<lambda>p. p = ''/adapters/style''\<rparr>) fresh_handler
        '' /adapters/style ''
     = (fresh_handler, msg_invalid_adapter ''/adapters/style'')
     \<and> mentions ''adapter_config.json'' (msg_invalid_adapter ''/adapters/style'')"
    using h(4,5) x(2,3) load_checks_in_order [where h = fresh_handler
        and rt = "calm_runtime\<lparr>path_exists := \<lambda>p. p = ''/adapters/style''\<rparr>"
        and p = "'' /adapters/style ''" and q = "[]"]
    unfolding s(3) by simp
  show ?thesis
    using a b c d e by blast
qed

subsection \<open>\<^verbatim>\<open>load_lora\<close> and the stored scale\<close>

lemma load_lora_scale_blind:
  "model (fst (load_lora rt (h\<lparr>lora_scale := s\<rparr>) p)) = model (fst (load_lora rt h p))
   \<and> snd (load_lora rt (h\<lparr>lora_scale := s\<rparr>) p) = snd (load_lora rt h p)"
  by (simp add: load_lora_def load_adapter_def load_decoder_def place_decoder_def Let_def
      split: option.split sum.split prod.split)

text \<open>
  Claim C9. \<^verbatim>\<open>load_lora\<close> never writes \<^verbatim>\<open>lora_scale\<close>: after a load, successful or
  not, \<^verbatim>\<open>get_lora_status\<close> reports the scale stored before, so after
  \<^verbatim>\<open>set_lora_scale(x)\<close> on a loaded adapter and a new load it reports \<open>clamp x 0 1\<close>.
  The decoder that the load leaves is the same for every stored scale: it is what the
  library built, and the stored scale is not applied to it.
\<close>

theorem load_keeps_scale:
  "lora_scale (fst (load_lora rt h p)) = lora_scale h
   \<and> scale (get_lora_status (fst (load_lora rt h p))) = lora_scale h
   \<and> (lora_loaded h \<longrightarrow>
        scale (get_lora_status (fst (load_lora rt (fst (set_lora_scale rt h x)) p))) = clamp x 0 1)
   \<and> model (fst (load_lora rt (h\<lparr>lora_scale := s\<rparr>) p)) = model (fst (load_lora rt h p))"
  using load_lora_effect [of rt h p] load_lora_effect [of rt "fst (set_lora_scale rt h x)" p]
    set_lora_scale_scale [of rt h x] load_lora_scale_blind [where rt = rt and h = h and s = s and p = p]
  by (simp add: get_lora_status_def)

theorem load_keeps_scale_witness:
  "lora_loaded loaded_handler
   \<and> is_success (snd (load_lora calm_runtime
         (fst (set_lora_scale calm_runtime loaded_handler (3 / 10))) ''/adapters/other''))
   \<and> scale (get_lora_status (fst (load_lora calm_runtime
         (fst (set_lora_scale calm_runtime loaded_handler (3 / 10))) ''/adapters/other''))) = 3 / 10
   \<and> modules_of (fst (load_lora calm_runtime
         (fst (set_lora_scale calm_runtime loaded_handler (3 / 10))) ''/adapters/other''))
       = named_modules peft_dec"
proof -
  have l: "lora_loaded loaded_handler"
    by (simp add: loaded_handler_def)
  have c: "clamp (3 / 10) 0 1 = 3 / 10"
    by (simp add: clamp_def)
  have e: "load_lora calm_runtime (fst (set_lora_scale calm_runtime loaded_handler (3 / 10)))
        ''/adapters/other''
      = (loaded_handler\<lparr>lora_scale := 3 / 10\<rparr>, msg_loaded ''/adapters/other'')"
    by (simp add: set_lora_scale_def loaded_handler_def fresh_handler_def py_max_def py_min_def
        apply_scale_def split_beta load_lora_def strip_def is_space_def calm_runtime_def
        path_join_def load_adapter_def deepcopy_def load_decoder_def place_decoder_def)
  have s: "scale (get_lora_status (fst (load_lora calm_runtime
         (fst (set_lora_scale calm_runtime loaded_handler (3 / 10))) ''/adapters/other''))) = 3 / 10"
    using l load_keeps_scale [where h = loaded_handler and rt = calm_runtime and x = "3 / 10"
        and p = "''/adapters/other''" and s = 0]
    by (simp only: c)
  have k: "is_success (snd (load_lora calm_runtime
         (fst (set_lora_scale calm_runtime loaded_handler (3 / 10))) ''/adapters/other''))"
      "modules_of (fst (load_lora calm_runtime
         (fst (set_lora_scale calm_runtime loaded_handler (3 / 10))) ''/adapters/other''))
       = named_modules peft_dec"
    unfolding e by (simp_all add: is_success_def msg_loaded_def modules_of_def loaded_handler_def)
  show ?thesis
    using l s k by blast
qed

subsection \<open>Disabling\<close>

text \<open>
  Claim C10. \<^verbatim>\<open>set_use_lora(False)\<close> sets \<^verbatim>\<open>use_lora\<close> to false in every state. It
  returns the success string in every state of the handler: every state in which a
  loaded adapter sits on an initialised model, which \<^verbatim>\<open>load_lora\<close> establishes before
  it sets \<^verbatim>\<open>lora_loaded\<close> and every operation keeps, so every state that a sequence
  of operations reaches from such a state, and every state with no adapter loaded. With
  no adapter loaded nothing but the flag changes and no method of the decoder is called
  (the result is the same for every runtime).
\<close>

theorem disable_succeeds:
  "use_lora (fst (set_use_lora rt h False)) = False
   \<and> (model_ok h \<longrightarrow> snd (set_use_lora rt h False) = Inr (msg_toggled False))
   \<and> (model_ok h \<longrightarrow>
        model_ok (run rt h ops)
        \<and> snd (set_use_lora rt (run rt h ops) False) = Inr (msg_toggled False))
   \<and> is_success (msg_toggled False)
   \<and> (\<not> lora_loaded h \<longrightarrow>
        set_use_lora rt h False = (h\<lparr>use_lora := False\<rparr>, Inr (msg_toggled False)))"
proof -
  have returns: "snd (set_use_lora rt g False) = Inr (msg_toggled False)" if "model_ok g" for g
    using that by (auto simp: set_use_lora_def model_ok_def Let_def)
  have reached: "model_ok (run rt h ops)" if "model_ok h"
    using that run_invariant [of model_ok rt h ops] perform_model_ok by blast
  have "use_lora (fst (set_use_lora rt h False)) = False"
    using set_use_lora_effect [of rt h False] by simp
  moreover have "is_success (msg_toggled False)"
    by (simp add: is_success_def msg_toggled_def)
  moreover have "set_use_lora rt h False = (h\<lparr>use_lora := False\<rparr>, Inr (msg_toggled False))"
    if "\<not> lora_loaded h"
    using that by (simp add: set_use_lora_def)
  ultimately show ?thesis
    using returns reached by blast
qed

theorem disable_succeeds_witness:
  "model_ok fresh_handler \<and> \<not> lora_loaded fresh_handler
   \<and> set_use_lora calm_runtime fresh_handler False = (fresh_handler, Inr (msg_toggled False))
   \<and> model_ok loaded_handler \<and> lora_loaded loaded_handler
   \<and> snd (set_use_lora calm_runtime loaded_handler False) = Inr (msg_toggled False)
   \<and> use_lora (fst (set_use_lora calm_runtime loaded_handler False)) = False
   \<and> snd (set_use_lora calm_runtime
        (run calm_runtime fresh_handler [Load ''/adapters/style'', SetScale (1 / 2), Unload])
        False) = Inr (msg_toggled False)"
proof -
  have m: "model_ok fresh_handler" "model_ok loaded_handler" "\<not> lora_loaded fresh_handler"
      "lora_loaded loaded_handler"
    by (simp_all add: model_ok_def fresh_handler_def loaded_handler_def)
  have f: "fresh_handler\<lparr>use_lora := False\<rparr> = fresh_handler"
    by (simp add: fresh_handler_def)
  have a: "set_use_lora calm_runtime fresh_handler False
      = (fresh_handler, Inr (msg_toggled False))"
    using m(3) f disable_succeeds [of calm_runtime fresh_handler "[]"] by simp
  have b: "snd (set_use_lora calm_runtime loaded_handler False) = Inr (msg_toggled False)
      \<and> use_lora (fst (set_use_lora calm_runtime loaded_handler False)) = False"
    using m(2) disable_succeeds [of calm_runtime loaded_handler "[]"] by blast
  have c: "snd (set_use_lora calm_runtime
        (run calm_runtime fresh_handler [Load ''/adapters/style'', SetScale (1 / 2), Unload])
        False) = Inr (msg_toggled False)"
    using m(1) disable_succeeds [of calm_runtime fresh_handler
        "[Load ''/adapters/style'', SetScale (1 / 2), Unload]"]
    by blast
  show ?thesis
    using m a b c by blast
qed

text \<open>
  The condition on the model is needed in the model of the code: \<^verbatim>\<open>set_use_lora\<close> reads
  \<^verbatim>\<open>self.model.decoder\<close> outside its \<^verbatim>\<open>try\<close> block, so on a handler with
  \<^verbatim>\<open>lora_loaded\<close> set and no model, which no operation produces, it writes the flag
  and raises.
\<close>

lemma disable_without_model:
  "set_use_lora calm_runtime (loaded_handler\<lparr>model := None\<rparr>) False
     = (loaded_handler\<lparr>model := None, use_lora := False\<rparr>, Inl ''AttributeError'')"
  by (simp add: set_use_lora_def loaded_handler_def fresh_handler_def)

subsection \<open>Repeated scaling does not compound\<close>

lemma map_of_present: "(map_of d k \<noteq> None) = (k \<in> set (map fst d))"
  by (simp add: map_of_eq_None_iff)

lemma map_of_present_ex: "(\<exists>y. map_of d k = Some y) = (k \<in> set (map fst d))"
  using map_of_present [of d k] by auto

lemma dict_set_present:
  "map_of d k \<noteq> None \<Longrightarrow>
     dict_set k v d = map (\<lambda>(k', v'). if k' = k then (k', v) else (k', v')) d"
  by (simp add: dict_set_def)

lemma dict_set_keys: "map_of d k \<noteq> None \<Longrightarrow> map fst (dict_set k v d) = map fst d"
  by (simp add: dict_set_present) (induction d, auto)

lemma rescale_entries_fits:
  "list_all (\<lambda>k. map_of od k \<noteq> None) ks \<Longrightarrow> list_all (\<lambda>k. map_of cur k \<noteq> None) ks \<Longrightarrow>
     rescale_entries (Some (ScalingDict od)) s ks cur
       = (map (\<lambda>(k, v). if k \<in> set ks then (k, the (map_of od k) * s) else (k, v)) cur, None)"
proof (induction ks arbitrary: cur)
  case Nil
  then show ?case by simp
next
  case (Cons k ks)
  from Cons.prems obtain ov where ov: "map_of od k = Some ov" by auto
  let ?cur = "dict_set k (ov * s) cur"
  have present: "map_of cur k \<noteq> None" using Cons.prems by simp
  have keys: "map fst ?cur = map fst cur" using present by (rule dict_set_keys)
  have "list_all (\<lambda>k. map_of ?cur k \<noteq> None) ks"
    using Cons.prems(2) keys by (simp only: map_of_present list_all_iff) simp
  with Cons.IH [of ?cur] Cons.prems(1)
  have "rescale_entries (Some (ScalingDict od)) s ks ?cur
       = (map (\<lambda>(k, v). if k \<in> set ks then (k, the (map_of od k) * s) else (k, v)) ?cur, None)"
    by simp
  then show ?case
    using ov by (auto simp: dict_set_present [OF present])
qed

lemma rescale_entries_all:
  assumes "list_all (\<lambda>k. map_of od k \<noteq> None) (map fst d)"
  shows "rescale_entries (Some (ScalingDict od)) s (map fst d) d
       = (map (\<lambda>(k, v). (k, case map_of od k of Some ov \<Rightarrow> ov * s | None \<Rightarrow> v)) d, None)"
proof -
  have "list_all (\<lambda>k. map_of d k \<noteq> None) (map fst d)"
    by (simp only: map_of_present list_all_iff) simp
  from rescale_entries_fits [OF assms this, of s]
  have "rescale_entries (Some (ScalingDict od)) s (map fst d) d
       = (map (\<lambda>(k, v). if k \<in> set (map fst d) then (k, the (map_of od k) * s) else (k, v)) d, None)" .
  moreover have "(if k \<in> set (map fst d) then (k, the (map_of od k) * s) else (k, v))
      = (k, case map_of od k of Some ov \<Rightarrow> ov * s | None \<Rightarrow> v)" if "(k, v) \<in> set d" for k v
  proof -
    from that have k: "k \<in> set (map fst d)" by force
    with assms obtain ov where "map_of od k = Some ov"
      by (auto simp: list_all_iff)
    with k show ?thesis by simp
  qed
  ultimately show ?thesis by auto
qed

lemma self_fits: "list_all (\<lambda>k. map_of d k \<noteq> None) (map fst d)"
  by (simp only: map_of_present list_all_iff) simp

lemma scale_module_fits:
  assumes "is_scaled (name, m)" and "saved_fits m"
  shows "scale_module s m = (rescaled s m, 1, None)"
proof (cases "scaling m")
  case None
  with assms show ?thesis by (simp add: is_scaled_def)
next
  case (Some a)
  show ?thesis
  proof (cases a)
    case (ScalingDict d)
    show ?thesis
    proof (cases "original_scaling m")
      case None
      then show ?thesis
        using Some ScalingDict rescale_entries_all [OF self_fits, of d s]
        by (simp add: scale_module_def save_original_def rescaled_def captured_def times_def)
    next
      case orig: (Some ov)
      with assms(2) Some ScalingDict obtain od where od: "ov = ScalingDict od"
        and fits: "list_all (\<lambda>k. map_of od k \<noteq> None) (map fst d)"
        by (auto simp: saved_fits_def split: scaling_attr.splits)
      have "m\<lparr>original_scaling := Some (ScalingDict od)\<rparr> = m"
        using orig od by simp
      then show ?thesis
        using Some ScalingDict orig od rescale_entries_all [OF fits, of s]
        by (simp add: scale_module_def save_original_def rescaled_def captured_def times_def)
    qed
  next
    case (ScalingNum v)
    show ?thesis
    proof (cases "original_scaling m")
      case None
      then show ?thesis
        using Some ScalingNum
        by (simp add: scale_module_def save_original_def rescaled_def captured_def times_def)
    next
      case orig: (Some ov)
      with assms(2) Some ScalingNum obtain w where w: "ov = ScalingNum w"
        by (auto simp: saved_fits_def split: scaling_attr.splits)
      have "m\<lparr>original_scaling := Some (ScalingNum w)\<rparr> = m"
        using orig w by simp
      then show ?thesis
        using Some ScalingNum orig w
        by (simp add: scale_module_def save_original_def rescaled_def captured_def times_def)
    qed
  next
    case ScalingOther
    with assms Some show ?thesis by (simp add: is_scaled_def)
  qed
qed

lemma times_twice:
  "times orig b (Some (times orig a live)) = times orig b live"
  by (cases orig; cases live; simp add: times_def split: scaling_attr.split option.split)
     (auto split: option.split)

lemma rescaled_facts:
  assumes "is_scaled (name, m)" and "saved_fits m"
  shows "is_scaled (name, rescaled a m)" and "saved_fits (rescaled a m)"
    and "captured (rescaled a m) = captured m"
proof -
  show "captured (rescaled a m) = captured m"
    by (simp add: rescaled_def captured_def)
  show "is_scaled (name, rescaled a m)"
    using assms
    by (auto simp: is_scaled_def rescaled_def captured_def times_def saved_fits_def
        split: option.splits scaling_attr.splits)
  show "saved_fits (rescaled a m)"
    using assms self_fits
    by (auto simp: is_scaled_def rescaled_def captured_def times_def saved_fits_def comp_def
        case_prod_unfold split: option.splits scaling_attr.splits)
qed

lemma rescaled_twice: "rescaled b (rescaled a m) = rescaled b m"
  by (simp add: rescaled_def captured_def times_twice)

lemma touch_fits: "modules_fit ms \<Longrightarrow> modules_fit (map (touch a) ms)"
  using rescaled_facts(2)
  by (induction ms) (auto simp: modules_fit_def touch_def)

lemma touch_is_scaled: "saved_fits (snd nm) \<or> \<not> is_scaled nm \<Longrightarrow> is_scaled (touch a nm) = is_scaled nm"
  using rescaled_facts(1) [of "fst nm" "snd nm" a]
  by (auto simp: touch_def)

lemma touch_twice: "modules_fit ms \<Longrightarrow> map (touch b) (map (touch a) ms) = map (touch b) ms"
proof (induction ms)
  case Nil
  show ?case by simp
next
  case (Cons nm ms)
  then have fit: "is_scaled nm \<longrightarrow> saved_fits (snd nm)" and rest: "modules_fit ms"
    by (simp_all add: modules_fit_def)
  have "touch b (touch a nm) = touch b nm"
  proof (cases "is_scaled nm")
    case True
    with fit rescaled_facts(1) [of "fst nm" "snd nm" a]
    show ?thesis by (simp add: touch_def rescaled_twice)
  next
    case False
    then show ?thesis by (simp add: touch_def)
  qed
  with Cons.IH [OF rest] show ?case by simp
qed

lemma scale_modules_fit:
  "modules_fit ms \<Longrightarrow>
     scale_modules s ms = (map (touch s) ms, length (filter is_scaled ms), None)"
proof (induction ms)
  case Nil
  show ?case by simp
next
  case (Cons nm ms)
  obtain name m where nm: "nm = (name, m)" by (cases nm)
  from Cons.prems have fit: "is_scaled nm \<longrightarrow> saved_fits (snd nm)" and rest: "modules_fit ms"
    by (simp_all add: modules_fit_def)
  note IH = Cons.IH [OF rest]
  show ?case
  proof (cases "is_scaled nm")
    case True
    with fit nm have "scale_module s m = (rescaled s m, 1, None)"
      using scale_module_fits [of name m s] by simp
    moreover from True nm have "contains name ''lora_'' \<and> scaling m \<noteq> None"
      by (auto simp: is_scaled_def split: option.splits)
    ultimately show ?thesis
      using True nm IH by (simp add: touch_def)
  next
    case False
    show ?thesis
    proof (cases "contains name ''lora_'' \<and> scaling m \<noteq> None")
      case True
      with False nm have "scaling m = Some ScalingOther"
        by (auto simp: is_scaled_def split: option.splits scaling_attr.splits)
      then have "scale_module s m = (m, 0, None)"
        by (simp add: scale_module_def)
      with True False nm IH show ?thesis by (simp add: touch_def)
    next
      case no: False
      with False nm IH show ?thesis by (auto simp: touch_def)
    qed
  qed
qed

lemma apply_scale_fit:
  assumes "modules_fit (named_modules d)" and "nm \<in> set (named_modules d)" and "is_scaled nm"
  shows "apply_scale rt s d = (d\<lparr>named_modules := map (touch s) (named_modules d)\<rparr>, msg_scale_ok s)"
proof -
  from assms(2,3) have "filter is_scaled (named_modules d) \<noteq> []"
    by (auto simp: filter_empty_conv)
  then show ?thesis
    using scale_modules_fit [OF assms(1), of s] by (simp add: apply_scale_def)
qed

lemma set_lora_scale_fit:
  assumes "lora_loaded h" and "use_lora h" and "modules_fit (modules_of h)"
    and "nm \<in> set (modules_of h)" and "is_scaled nm"
  shows "lora_loaded (fst (set_lora_scale rt h x))" and "use_lora (fst (set_lora_scale rt h x))"
    and "modules_of (fst (set_lora_scale rt h x)) = map (touch (clamp x 0 1)) (modules_of h)"
proof -
  from assms(4) obtain mo where mo: "model h = Some mo" and ms: "modules_of h = named_modules (decoder mo)"
    by (cases "model h") (auto simp: modules_of_def)
  show "lora_loaded (fst (set_lora_scale rt h x))" "use_lora (fst (set_lora_scale rt h x))"
    using assms(1,2) set_lora_scale_frame [of rt h x] by simp_all
  show "modules_of (fst (set_lora_scale rt h x)) = map (touch (clamp x 0 1)) (modules_of h)"
    using assms mo ms apply_scale_fit [of "decoder mo" nm rt "clamp x 0 1"]
    by (simp add: set_lora_scale_def py_clamp modules_of_def)
qed

text \<open>
  Claim C5. With an adapter loaded and enabled, and every saved original being one that
  the first touch captured (or none saved yet), after \<^verbatim>\<open>set_lora_scale(a)\<close> and then
  \<^verbatim>\<open>set_lora_scale(b)\<close> every module that the first loop rescales keeps its name, has
  the original value (the one saved before, else the live value before the first call)
  as \<^verbatim>\<open>_original_scaling\<close>, and has that original times \<open>clamp b 0 1\<close> as its
  live \<^verbatim>\<open>scaling\<close>, whatever \<open>a\<close> was: with 0.5 and then 0.8, the original times 0.8.
\<close>

theorem rescaling_does_not_compound:
  assumes "lora_loaded h" and "use_lora h" and "modules_fit (modules_of h)"
    and "i < length (modules_of h)" and "is_scaled (modules_of h ! i)"
  shows "length (modules_of (fst (set_lora_scale rt (fst (set_lora_scale rt h a)) b)))
           = length (modules_of h)
     \<and> fst (modules_of (fst (set_lora_scale rt (fst (set_lora_scale rt h a)) b)) ! i)
           = fst (modules_of h ! i)
     \<and> original_scaling (snd (modules_of (fst (set_lora_scale rt (fst (set_lora_scale rt h a)) b)) ! i))
           = Some (captured (snd (modules_of h ! i)))
     \<and> scaling (snd (modules_of (fst (set_lora_scale rt (fst (set_lora_scale rt h a)) b)) ! i))
           = Some (times (captured (snd (modules_of h ! i))) (clamp b 0 1)
                     (scaling (snd (modules_of h ! i))))"
proof -
  let ?nm = "modules_of h ! i"
  let ?h1 = "fst (set_lora_scale rt h a)"
  have mem: "?nm \<in> set (modules_of h)" using assms(4) by simp
  note first = set_lora_scale_fit [OF assms(1-3) mem assms(5), of rt a]
  have fit1: "modules_fit (modules_of ?h1)"
    using first(3) touch_fits [OF assms(3)] by simp
  have mem1: "touch (clamp a 0 1) ?nm \<in> set (modules_of ?h1)"
    using first(3) mem by simp
  have scaled1: "is_scaled (touch (clamp a 0 1) ?nm)"
    using assms(3,5) mem touch_is_scaled [of ?nm "clamp a 0 1"]
    by (auto simp: modules_fit_def list_all_iff)
  note second = set_lora_scale_fit [OF first(1,2) fit1 mem1 scaled1, of rt b]
  have "modules_of (fst (set_lora_scale rt ?h1 b)) = map (touch (clamp b 0 1)) (modules_of h)"
    using second(3) first(3) touch_twice [OF assms(3)] by simp
  then show ?thesis
    using assms(4,5) by (simp add: touch_def rescaled_def)
qed

lemma example_modules:
  "modules_of loaded_handler =
     [(''layers.0.attn'', plain_module),
      (''layers.0.lora_q'', lora_module),
      (''layers.0.lora_v'', lora_module\<lparr>scaling := Some (ScalingNum 4)\<rparr>)]"
  by (simp add: modules_of_def loaded_handler_def fresh_handler_def peft_dec_def)

theorem rescaling_does_not_compound_witness:
  "lora_loaded loaded_handler \<and> use_lora loaded_handler
   \<and> modules_fit (modules_of loaded_handler)
   \<and> 2 < length (modules_of loaded_handler) \<and> is_scaled (modules_of loaded_handler ! 2)
   \<and> scaling (snd (modules_of loaded_handler ! 2)) = Some (ScalingNum 4)
   \<and> scaling (snd (modules_of (fst (set_lora_scale calm_runtime
         (fst (set_lora_scale calm_runtime loaded_handler (1 / 2))) (4 / 5))) ! 2))
       = Some (ScalingNum (4 * (4 / 5)))
   \<and> scaling (snd (modules_of (fst (set_lora_scale calm_runtime
         (fst (set_lora_scale calm_runtime loaded_handler (1 / 2))) (4 / 5))) ! 2))
       \<noteq> Some (ScalingNum (4 * (1 / 2) * (4 / 5)))
   \<and> is_scaled (modules_of loaded_handler ! 1)
   \<and> scaling (snd (modules_of loaded_handler ! 1)) = Some (ScalingDict [(''default'', 2)])
   \<and> scaling (snd (modules_of (fst (set_lora_scale calm_runtime
         (fst (set_lora_scale calm_runtime loaded_handler (1 / 2))) (4 / 5))) ! 1))
       = Some (ScalingDict [(''default'', 2 * (4 / 5))])"
proof -
  have l: "lora_loaded loaded_handler" and u: "use_lora loaded_handler"
    by (simp_all add: loaded_handler_def)
  have s: "is_scaled (modules_of loaded_handler ! 2)" "is_scaled (modules_of loaded_handler ! 1)"
    by (simp_all add: example_modules is_scaled_def lora_module_def)
  have f: "modules_fit (modules_of loaded_handler)"
    by (simp add: example_modules modules_fit_def saved_fits_def lora_module_def plain_module_def)
  have n: "2 < length (modules_of loaded_handler)" "1 < length (modules_of loaded_handler)"
    by (simp_all add: example_modules)
  have c: "clamp (4 / 5) 0 1 = 4 / 5"
    by (simp add: clamp_def)
  have v: "scaling (snd (modules_of loaded_handler ! 2)) = Some (ScalingNum 4)"
      "captured (snd (modules_of loaded_handler ! 2)) = ScalingNum 4"
      "scaling (snd (modules_of loaded_handler ! 1)) = Some (ScalingDict [(''default'', 2)])"
      "captured (snd (modules_of loaded_handler ! 1)) = ScalingDict [(''default'', 2)]"
    by (simp_all add: example_modules captured_def lora_module_def)
  have t: "times (ScalingNum 4) (4 / 5) (Some (ScalingNum 4)) = ScalingNum (4 * (4 / 5))"
      "times (ScalingDict [(''default'', 2)]) (4 / 5) (Some (ScalingDict [(''default'', 2)]))
         = ScalingDict [(''default'', 2 * (4 / 5))]"
    by (simp_all add: times_def)
  have r2: "scaling (snd (modules_of (fst (set_lora_scale calm_runtime
         (fst (set_lora_scale calm_runtime loaded_handler (1 / 2))) (4 / 5))) ! 2))
       = Some (ScalingNum (4 * (4 / 5)))"
    using rescaling_does_not_compound [OF l u f n(1) s(1), of calm_runtime "1 / 2" "4 / 5"]
    by (simp only: v c t)
  have r1: "scaling (snd (modules_of (fst (set_lora_scale calm_runtime
         (fst (set_lora_scale calm_runtime loaded_handler (1 / 2))) (4 / 5))) ! 1))
       = Some (ScalingDict [(''default'', 2 * (4 / 5))])"
    using rescaling_does_not_compound [OF l u f n(2) s(2), of calm_runtime "1 / 2" "4 / 5"]
    by (simp only: v c t)
  have r3: "scaling (snd (modules_of (fst (set_lora_scale calm_runtime
         (fst (set_lora_scale calm_runtime loaded_handler (1 / 2))) (4 / 5))) ! 2))
       \<noteq> Some (ScalingNum (4 * (1 / 2) * (4 / 5)))"
    unfolding r2 by simp
  show ?thesis
    using l u f n(1) s v(1,3) r1 r2 r3 by blast
qed

end
